theory Spec2Isabelle
  imports Complex_Main
begin

section \<open>JavaScript values and the macro coercion\<close>

text \<open>
  The analysis result reaches \<open>handleSaveMeal\<close> as a JavaScript object whose macro fields
  are passed through \<^verbatim>\<open>Math.round(Number(x)) || 0\<close>. A JavaScript number is a
  finite double, an infinity or NaN. Every finite double is a rational, and \<open>Math.round\<close>
  is exact on them, so a finite number is modelled by its rational value; \<open>-0\<close> and
  \<open>+0\<close> are both \<open>Finite 0\<close> (both are falsy and both are integers, which is all the
  code below observes).
\<close>

datatype js_number = NaN | PosInfinity | NegInfinity | Finite rat

text \<open>
  The primitive values a field of a parsed response can hold. \<open>JUndefined\<close> is a missing
  field.
\<close>

datatype js_value = JUndefined | JNull | JBool bool | JNum js_number | JStr string

text \<open>
  \<open>Number(x)\<close>: ECMAScript's ToNumber on a primitive. The string grammar
  (StringToNumber) is a builtin of the language, taken as the parameter \<open>S\<close>.
\<close>

fun Number :: "(string \<Rightarrow> js_number) \<Rightarrow> js_value \<Rightarrow> js_number" where
  "Number S JUndefined = NaN"
| "Number S JNull = Finite 0"
| "Number S (JBool b) = (if b then Finite 1 else Finite 0)"
| "Number S (JNum n) = n"
| "Number S (JStr s) = S s"

text \<open>
  \<open>Math.round\<close>: the integral number closest to the argument, ties towards
  \<open>+\<infinity>\<close>; NaN and the infinities are returned unchanged.
\<close>

fun Math_round :: "js_number \<Rightarrow> js_number" where
  "Math_round (Finite r) = Finite (of_int \<lfloor>r + 1 / 2\<rfloor>)"
| "Math_round n = n"

text \<open>Truthiness of a number: \<open>0\<close> and NaN are falsy, everything else is truthy.\<close>

fun truthy_number :: "js_number \<Rightarrow> bool" where
  "truthy_number NaN = False"
| "truthy_number (Finite r) = (r \<noteq> 0)"
| "truthy_number n = True"

text \<open>\<open>n || 0\<close> on numbers.\<close>

definition or_zero :: "js_number \<Rightarrow> js_number" where
  "or_zero n = (if truthy_number n then n else Finite 0)"

text \<open>\<^verbatim>\<open>Math.round(Number(x)) || 0\<close>, the expression of both write paths.\<close>

definition macro :: "(string \<Rightarrow> js_number) \<Rightarrow> js_value \<Rightarrow> js_number" where
  "macro S x = or_zero (Math_round (Number S x))"

text \<open>A number is an integer when it is finite and has no fractional part.\<close>

fun is_integer :: "js_number \<Rightarrow> bool" where
  "is_integer (Finite r) = (of_int \<lfloor>r\<rfloor> = r)"
| "is_integer n = False"

section \<open>Data of the backend handles and of the screens\<close>

text \<open>A value thrown by a call, or the \<open>error\<close> field of an SDK reply; only its
  \<open>message\<close> is ever read (\<^verbatim>\<open>err?.message\<close>), and it may be missing.\<close>

datatype thrown = Thrown (message: "string option")

text \<open>The token pair of a session, all that \<open>syncSupabaseAuth\<close> reads of it.\<close>

record session =
  access_token :: string
  refresh_token :: string

text \<open>The signed-in user of the auth context; \<open>uid\<close> is its \<open>id\<close> field.\<close>

record auth_user =
  uid :: string

text \<open>
  Modelled from the spec: the type \<open>FoodAnalysisResult\<close> is declared in the analysis
  service, which is not among the sources. The spec names the nutritional estimate
  (calories, protein, carbs, fat); the fields are those the save handler reads. They hold
  whatever the parsed reply of the analysis holds, which is why the handler coerces them.
\<close>

record FoodAnalysisResult =
  name :: string
  calories :: js_value
  protein :: js_value
  carbs :: js_value
  fat :: js_value

text \<open>The arguments of \<^verbatim>\<open>supabase.rpc('insert_meal', {...})\<close>.\<close>

record rpc_params =
  p_name :: string
  p_thumbnail_url :: string
  p_calories :: js_number
  p_protein :: js_number
  p_carbs :: js_number
  p_fat :: js_number

text \<open>The row of \<^verbatim>\<open>supabase.from('meals').insert({...})\<close>; the columns
  \<open>name\<close>, \<open>user_id\<close>, \<open>calories\<close>, ... carry the prefix \<open>col_\<close> here.\<close>

record meal_row =
  col_name :: string
  col_user_id :: string
  col_calories :: js_number
  col_protein :: js_number
  col_carbs :: js_number
  col_fat :: js_number
  col_image_url :: string
  col_meal_time :: string

record image =
  uri :: string
  width :: nat
  height :: nat

datatype haptic = ImpactLight | ImpactMedium | NotifySuccess | NotifyError

text \<open>
  Everything a handler does to the outside, in the order it does it: console output,
  alerts, haptics, navigation, calls of the SDKs and of the services, and calls of the
  state setters of the two screens.
\<close>

datatype event =
    ConsoleLog string
  | ConsoleError string
  | AlertShown string string
  | Haptic haptic
  | RouterPush string string
  | RouterReplace string
  | RouterBack
  | SetTimeout nat
  | MainGetSession
  | DbSetSession session
  | UploadThumbnail string
  | DbGetUser
  | DbRpc string rpc_params
  | DbInsert string meal_row
  | AnalyzeFoodImage "string option"
  | RequestCameraPermission
  | RequestMediaLibraryPermission
  | RequestGalleryPermission
  | LaunchImageLibrary
  | TakePictureAsync
  | ProcessImageForAI string
  | SetHasCameraPermission bool
  | SetHasGalleryPermission bool
  | SetIsCapturing bool
  | SetCapturedImage "image option"
  | SetIsAnalyzing bool
  | SetResult FoodAnalysisResult
  | SetIsLoading bool
  | SetError "string option"
  | SetIsSaving bool

datatype route = CameraTab | DashboardTab | ResultsRoute

text \<open>
  The state the handlers read and write: the sessions the two backend handles hold, the
  user of the auth context, the state variables of \<open>CameraScreen\<close> and those of
  \<open>ResultsScreen\<close> together with its route parameter \<open>imageUri\<close>. State that no handler
  below reads (flash mode, guide overlay, media library permission) is left out.
  \<open>retake_timers\<close> counts the pending timers of \<open>handleRetake\<close>.
\<close>

record app =
  main_session :: "session option"
  db_session :: "session option"
  user :: "auth_user option"
  route :: route
  hasCameraPermission :: "bool option"
  hasGalleryPermission :: "bool option"
  isCapturing :: bool
  capturedImage :: "image option"
  isAnalyzing :: bool
  retake_timers :: nat
  imageUri :: "string option"
  result :: "FoodAnalysisResult option"
  isLoading :: bool
  error :: "string option"
  isSaving :: bool

section \<open>Handlers as programs\<close>

text \<open>
  A handler is a function from the state to the events it emits, the state it leaves and
  how it completes: normally with a value, or by throwing (a rejected promise).
\<close>

datatype 'a completion = Normal 'a | Throws thrown

type_synonym 'a prog = "app \<Rightarrow> event list \<times> app \<times> 'a completion"

definition ret :: "'a \<Rightarrow> 'a prog" where
  "ret a s = ([], s, Normal a)"

definition throw :: "thrown \<Rightarrow> 'a prog" where
  "throw e s = ([], s, Throws e)"

definition bindP :: "'a prog \<Rightarrow> ('a \<Rightarrow> 'b prog) \<Rightarrow> 'b prog" where
  "bindP m f s =
     (case m s of
        (t1, s1, Throws e) \<Rightarrow> (t1, s1, Throws e)
      | (t1, s1, Normal a) \<Rightarrow> (case f a s1 of (t2, s2, c) \<Rightarrow> (t1 @ t2, s2, c)))"

definition seqP :: "unit prog \<Rightarrow> 'b prog \<Rightarrow> 'b prog" where
  "seqP m n = bindP m (\<lambda>_. n)"

text \<open>A block of statements, run in order up to the first that throws.\<close>

fun block :: "unit prog list \<Rightarrow> unit prog" where
  "block [] = ret ()"
| "block (m # ms) = seqP m (block ms)"

text \<open>\<^verbatim>\<open>try { m } catch (e) { h e }\<close>\<close>

definition try_catch :: "'a prog \<Rightarrow> (thrown \<Rightarrow> 'a prog) \<Rightarrow> 'a prog" where
  "try_catch m h s =
     (case m s of
        (t1, s1, Throws e) \<Rightarrow> (case h e s1 of (t2, s2, c) \<Rightarrow> (t1 @ t2, s2, c))
      | (t1, s1, Normal a) \<Rightarrow> (t1, s1, Normal a))"

text \<open>\<^verbatim>\<open>try { m } finally { f }\<close>, for an \<open>f\<close> that completes normally or throws.\<close>

definition try_finally :: "'a prog \<Rightarrow> unit prog \<Rightarrow> 'a prog" where
  "try_finally m f s =
     (case m s of (t1, s1, c) \<Rightarrow>
        (case f s1 of
           (t2, s2, Throws e) \<Rightarrow> (t1 @ t2, s2, Throws e)
         | (t2, s2, Normal _) \<Rightarrow> (t1 @ t2, s2, c)))"

definition get_state :: "app prog" where
  "get_state s = ([], s, Normal s)"

definition emit :: "event \<Rightarrow> unit prog" where
  "emit e s = ([e], s, Normal ())"

text \<open>A change of the state that is no call of the handler's own.\<close>

definition modify :: "(app \<Rightarrow> app) \<Rightarrow> unit prog" where
  "modify f s = ([], f s, Normal ())"

text \<open>A state setter: the call is an event, and the state variable is updated.\<close>

definition set_state :: "event \<Rightarrow> (app \<Rightarrow> app) \<Rightarrow> unit prog" where
  "set_state e f s = ([e], f s, Normal ())"

text \<open>An awaited call of a service: the call is an event, and the reply (a value, or a
  rejection) is the environment's.\<close>

definition call :: "event \<Rightarrow> thrown + 'a \<Rightarrow> 'a prog" where
  "call e reply s = ([e], s, case reply of Inl x \<Rightarrow> Throws x | Inr a \<Rightarrow> Normal a)"

abbreviation console_log :: "string \<Rightarrow> unit prog" where
  "console_log m \<equiv> emit (ConsoleLog m)"

abbreviation console_error :: "string \<Rightarrow> unit prog" where
  "console_error m \<equiv> emit (ConsoleError m)"

abbreviation Alert_alert :: "string \<Rightarrow> string \<Rightarrow> unit prog" where
  "Alert_alert title msg \<equiv> emit (AlertShown title msg)"

abbreviation Haptics :: "haptic \<Rightarrow> unit prog" where
  "Haptics h \<equiv> emit (Haptic h)"

abbreviation events :: "event list \<times> app \<times> 'a completion \<Rightarrow> event list" where
  "events r \<equiv> fst r"

abbreviation final :: "event list \<times> app \<times> 'a completion \<Rightarrow> app" where
  "final r \<equiv> fst (snd r)"

abbreviation completion :: "event list \<times> app \<times> 'a completion \<Rightarrow> 'a completion" where
  "completion r \<equiv> snd (snd r)"

section \<open>The environment of a save\<close>

text \<open>
  The reply of an SDK call that resolves to \<^verbatim>\<open>{ data, error }\<close>: the promise is
  rejected, or it resolves with the \<open>error\<close> field set or null.
\<close>

datatype sdk_reply = Rejects thrown | Replies "thrown option"

text \<open>
  What the outside answers during one call of \<open>handleSaveMeal\<close>. The SDK is the
  vendor's and the services (\<open>uploadThumbnail\<close>, the two client modules) are not among the
  sources; each awaited call gets its reply from here. \<open>StringToNumber\<close> is the
  language's conversion of a string to a number.
  \<open>getSession_reply\<close> is \<open>None\<close> when the main handle answers with the session it holds
  and \<open>Some e\<close> when the call is rejected.
\<close>

record env =
  StringToNumber :: "string \<Rightarrow> js_number"
  getSession_reply :: "thrown option"
  setSession_reply :: sdk_reply
  uploadThumbnail_reply :: "thrown + string"
  getUser_reply :: "thrown + auth_user option"
  rpc_reply :: sdk_reply
  insert_reply :: sdk_reply
  now_iso :: string

text \<open>An awaited SDK call that resolves to \<^verbatim>\<open>{ data, error }\<close>: the value is the
  \<open>error\<close> field.\<close>

definition sdk_call :: "event \<Rightarrow> sdk_reply \<Rightarrow> thrown option prog" where
  "sdk_call e r = call e (case r of Rejects x \<Rightarrow> Inl x | Replies err \<Rightarrow> Inr err)"

section \<open>syncSupabaseAuth\<close>

text \<open>Modelled from the spec: \<^verbatim>\<open>mainSupabase.auth.getSession()\<close> is the
  vendor SDK's; the call is rejected, or it answers with the session the main handle
  holds.\<close>

definition mainSupabase_getSession :: "env \<Rightarrow> session option prog" where
  "mainSupabase_getSession env =
     bindP get_state (\<lambda>s.
       call MainGetSession
         (case getSession_reply env of Some e \<Rightarrow> Inl e | None \<Rightarrow> Inr (main_session s)))"

text \<open>
  Modelled from the spec: \<^verbatim>\<open>dbSupabase.auth.setSession(tokens)\<close> is the vendor
  SDK's. By the spec the call is how the token pair is copied to the second handle: it
  installs the pair on the handle when it succeeds; it is taken to leave the handle as it
  was when it is rejected or resolves with an error. The caller does not read the reply.
\<close>

definition dbSupabase_setSession :: "env \<Rightarrow> session \<Rightarrow> unit prog" where
  "dbSupabase_setSession env tokens =
     bindP (sdk_call (DbSetSession tokens) (setSession_reply env)) (\<lambda>err.
       case err of
         None \<Rightarrow> modify (\<lambda>s. s\<lparr>db_session := Some tokens\<rparr>)
       | Some _ \<Rightarrow> ret ())"

definition syncSupabaseAuth :: "env \<Rightarrow> unit prog" where
  "syncSupabaseAuth env =
     try_catch
       (bindP (mainSupabase_getSession env) (\<lambda>session.
          case session of
            Some sess \<Rightarrow>
              block
               [dbSupabase_setSession env
                  \<lparr>access_token = access_token sess, refresh_token = refresh_token sess\<rparr>,
                console_log ''Supabase auth synchronized successfully'']
          | None \<Rightarrow> console_log ''No active session to synchronize''))
       (\<lambda>error. console_error ''Error synchronizing Supabase auth:'')"

section \<open>ResultsScreen\<close>

text \<open>Truthiness of the route parameter: a missing or empty string is falsy.\<close>

fun truthy_string :: "string option \<Rightarrow> bool" where
  "truthy_string None = False"
| "truthy_string (Some u) = (u \<noteq> [])"

definition setResult :: "FoodAnalysisResult \<Rightarrow> unit prog" where
  "setResult r = set_state (SetResult r) (\<lambda>s. s\<lparr>result := Some r\<rparr>)"

definition setIsLoading :: "bool \<Rightarrow> unit prog" where
  "setIsLoading b = set_state (SetIsLoading b) (\<lambda>s. s\<lparr>isLoading := b\<rparr>)"

definition setError :: "string option \<Rightarrow> unit prog" where
  "setError e = set_state (SetError e) (\<lambda>s. s\<lparr>error := e\<rparr>)"

definition setIsSaving :: "bool \<Rightarrow> unit prog" where
  "setIsSaving b = set_state (SetIsSaving b) (\<lambda>s. s\<lparr>isSaving := b\<rparr>)"

text \<open>\<^verbatim>\<open>router.replace('/(tabs)')\<close> leaves the results screen for the dashboard;
  \<^verbatim>\<open>router.back()\<close> returns to the camera tab, from where the screen was pushed.\<close>

definition router_replace_tabs :: "unit prog" where
  "router_replace_tabs = set_state (RouterReplace ''/(tabs)'') (\<lambda>s. s\<lparr>route := DashboardTab\<rparr>)"

definition router_back :: "unit prog" where
  "router_back = set_state RouterBack (\<lambda>s. s\<lparr>route := CameraTab\<rparr>)"

definition analyzeFood :: "thrown + FoodAnalysisResult \<Rightarrow> unit prog" where
  "analyzeFood reply =
     try_finally
       (try_catch
          (block
            [setIsLoading True,
             setError None,
             Haptics ImpactMedium,
             bindP get_state (\<lambda>s.
               bindP (call (AnalyzeFoodImage (imageUri s)) reply)
                 (\<lambda>analysisResult. block [setResult analysisResult, Haptics NotifySuccess]))])
          (\<lambda>err.
             block
              [console_error ''Error analyzing food:'',
               setError (Some ''Failed to analyze the food image. Please try again.''),
               Haptics NotifyError,
               Alert_alert ''Analysis Error''
                 ''There was a problem analyzing your food image. Please try again.'']))
       (setIsLoading False)"

text \<open>The effect that runs when the screen is mounted with its route parameter.\<close>

definition ResultsScreen_effect :: "thrown + FoodAnalysisResult \<Rightarrow> unit prog" where
  "ResultsScreen_effect reply =
     bindP get_state (\<lambda>s.
       if \<not> truthy_string (imageUri s)
       then block [setError (Some ''No image provided''), setIsLoading False]
       else analyzeFood reply)"

definition handleRetry :: "thrown + FoodAnalysisResult \<Rightarrow> unit prog" where
  "handleRetry reply = analyzeFood reply"

definition handleBack :: "unit prog" where
  "handleBack = router_back"

definition handleCancel :: "unit prog" where
  "handleCancel = router_replace_tabs"

subsection \<open>handleSaveMeal\<close>

definition placeholder_url :: string where
  "placeholder_url = ''https://via.placeholder.com/300x200?text=Upload+Failed''"

text \<open>\<^verbatim>\<open>err?.message || 'Unknown error'\<close>\<close>

definition error_message :: "thrown \<Rightarrow> string" where
  "error_message err =
     (case message err of
        Some m \<Rightarrow> if m = [] then ''Unknown error'' else m
      | None \<Rightarrow> ''Unknown error'')"

text \<open>The guard \<^verbatim>\<open>!result || !imageUri || !user\<close>: the three values the handler
  goes on with, when all of them are truthy.\<close>

definition save_inputs :: "app \<Rightarrow> (FoodAnalysisResult \<times> string \<times> auth_user) option" where
  "save_inputs s =
     (case (result s, imageUri s, user s) of
        (Some res, Some u, Some usr) \<Rightarrow> if truthy_string (Some u) then Some (res, u, usr) else None
      | _ \<Rightarrow> None)"

text \<open>The inner \<open>try\<close> around the upload: \<open>thumbnailUrl\<close> is the uploaded URL, or the
  placeholder when the upload throws.\<close>

definition upload_block :: "env \<Rightarrow> string \<Rightarrow> string prog" where
  "upload_block env fileUri =
     try_catch
       (bindP (call (UploadThumbnail fileUri) (uploadThumbnail_reply env)) (\<lambda>thumbnailUrl.
          seqP (console_log ''Thumbnail uploaded successfully:'') (ret thumbnailUrl)))
       (\<lambda>uploadError.
          seqP (console_error ''Error uploading thumbnail:'') (ret placeholder_url))"

text \<open>The object handed to \<^verbatim>\<open>supabase.rpc('insert_meal', ...)\<close>.\<close>

definition insert_meal_params :: "env \<Rightarrow> FoodAnalysisResult \<Rightarrow> string \<Rightarrow> rpc_params" where
  "insert_meal_params env res thumbnailUrl =
     \<lparr>p_name = name res,
      p_thumbnail_url = thumbnailUrl,
      p_calories = macro (StringToNumber env) (calories res),
      p_protein = macro (StringToNumber env) (protein res),
      p_carbs = macro (StringToNumber env) (carbs res),
      p_fat = macro (StringToNumber env) (fat res)\<rparr>"

text \<open>The object handed to \<^verbatim>\<open>supabase.from('meals').insert(...)\<close>;
  \<open>now_iso\<close> is \<^verbatim>\<open>new Date().toISOString()\<close>.\<close>

definition meals_row :: "env \<Rightarrow> FoodAnalysisResult \<Rightarrow> auth_user \<Rightarrow> string \<Rightarrow> meal_row" where
  "meals_row env res usr thumbnailUrl =
     \<lparr>col_name = name res,
      col_user_id = uid usr,
      col_calories = macro (StringToNumber env) (calories res),
      col_protein = macro (StringToNumber env) (protein res),
      col_carbs = macro (StringToNumber env) (carbs res),
      col_fat = macro (StringToNumber env) (fat res),
      col_image_url = thumbnailUrl,
      col_meal_time = now_iso env\<rparr>"

text \<open>The body of the second inner \<open>try\<close>: the user lookup on the db handle, then the
  remote procedure.\<close>

definition rpc_block :: "env \<Rightarrow> FoodAnalysisResult \<Rightarrow> string \<Rightarrow> unit prog" where
  "rpc_block env res thumbnailUrl =
     bindP (call DbGetUser (getUser_reply env)) (\<lambda>usr.
       case usr of
         None \<Rightarrow> throw (Thrown (Some ''User not authenticated''))
       | Some _ \<Rightarrow>
           seqP (console_log ''Attempting RPC call with params:'')
             (bindP
                (sdk_call (DbRpc ''insert_meal'' (insert_meal_params env res thumbnailUrl))
                   (rpc_reply env))
                (\<lambda>err.
                   case err of
                     Some e \<Rightarrow> throw e
                   | None \<Rightarrow> console_log ''Meal saved successfully via RPC:'')))"

text \<open>Its \<open>catch\<close>: the direct insert into the table, under the id of the auth context's
  user.\<close>

definition fallback_block :: "env \<Rightarrow> FoodAnalysisResult \<Rightarrow> auth_user \<Rightarrow> string \<Rightarrow> unit prog" where
  "fallback_block env res usr thumbnailUrl =
     block
      [console_error ''Error with RPC insert:'',
       console_log ''Attempting fallback insert with correct column names'',
       bindP
         (sdk_call (DbInsert ''meals'' (meals_row env res usr thumbnailUrl)) (insert_reply env))
         (\<lambda>err.
            case err of
              Some e \<Rightarrow> throw e
            | None \<Rightarrow> console_log ''Meal saved with fallback method:'')]"

text \<open>The two write paths together: the remote procedure first, the table insert when
  that branch throws.\<close>

definition write_block :: "env \<Rightarrow> FoodAnalysisResult \<Rightarrow> auth_user \<Rightarrow> string \<Rightarrow> unit prog" where
  "write_block env res usr thumbnailUrl =
     try_catch (rpc_block env res thumbnailUrl)
       (\<lambda>sqlError. fallback_block env res usr thumbnailUrl)"

text \<open>The outer \<open>try\<close> up to its first \<open>await\<close>.\<close>

definition save_started :: "unit prog" where
  "save_started = block [setIsSaving True, Haptics ImpactMedium]"

text \<open>The end of the outer \<open>try\<close>, once a write path has succeeded.\<close>

definition save_succeeded :: "unit prog" where
  "save_succeeded =
     block
      [setIsSaving False,
       Haptics NotifySuccess,
       Alert_alert ''Success'' ''Meal saved successfully'',
       console_log ''Navigating back to dashboard'',
       router_replace_tabs]"

text \<open>The rest of the outer \<open>try\<close>, from \<^verbatim>\<open>await syncSupabaseAuth()\<close> on.\<close>

definition save_awaited :: "env \<Rightarrow> FoodAnalysisResult \<Rightarrow> string \<Rightarrow> auth_user \<Rightarrow> unit prog" where
  "save_awaited env res fileUri usr =
     seqP (syncSupabaseAuth env)
       (bindP (upload_block env fileUri) (\<lambda>thumbnailUrl.
          block
           [write_block env res usr thumbnailUrl,
            save_succeeded]))"

text \<open>The outer \<open>catch\<close>.\<close>

definition save_failed :: "thrown \<Rightarrow> unit prog" where
  "save_failed err =
     block
      [console_error ''Error saving meal:'',
       Haptics NotifyError,
       Alert_alert ''Error'' (''Failed to save meal: '' @ error_message err),
       setIsSaving False]"

definition handleSaveMeal :: "env \<Rightarrow> unit prog" where
  "handleSaveMeal env =
     seqP (console_log ''Starting meal save process'')
       (bindP get_state (\<lambda>s.
          case save_inputs s of
            None \<Rightarrow>
              block
               [console_log ''Missing data:'',
                Alert_alert ''Error'' ''Missing data required to save meal'']
          | Some (res, fileUri, usr) \<Rightarrow>
              try_catch (seqP save_started (save_awaited env res fileUri usr)) save_failed))"

subsection \<open>What the screen renders\<close>

record action_buttons =
  cancel_disabled :: bool
  save_disabled :: bool
  save_label :: string

text \<open>The parts of the rendered tree that decide which handlers can be invoked: the
  retry button of the header, and the Cancel and Save buttons with their \<open>disabled\<close>
  property.\<close>

record results_view =
  retry_button :: bool
  image_available :: bool
  buttons :: "action_buttons option"

definition ResultsScreen :: "app \<Rightarrow> results_view" where
  "ResultsScreen s =
     \<lparr>retry_button = truthy_string (error s),
      image_available = truthy_string (imageUri s),
      buttons =
        (if truthy_string (imageUri s) \<and> \<not> isLoading s \<and> result s \<noteq> None
         then Some
           \<lparr>cancel_disabled = isSaving s,
            save_disabled = isSaving s,
            save_label = (if isSaving s then ''Saving...'' else ''Save Meal'')\<rparr>
         else None)\<rparr>"

text \<open>A press reaches \<open>onPress\<close> when the screen is the visible route, the button is
  rendered, and it is not disabled.\<close>

definition can_press_save :: "app \<Rightarrow> bool" where
  "can_press_save s =
     (route s = ResultsRoute \<and>
      (case buttons (ResultsScreen s) of Some b \<Rightarrow> \<not> save_disabled b | None \<Rightarrow> False))"

definition can_press_cancel :: "app \<Rightarrow> bool" where
  "can_press_cancel s =
     (route s = ResultsRoute \<and>
      (case buttons (ResultsScreen s) of Some b \<Rightarrow> \<not> cancel_disabled b | None \<Rightarrow> False))"

subsection \<open>One save, split at its first await\<close>

text \<open>
  \<open>handleSaveMeal\<close> starts inside the press event and goes on when the awaited replies
  arrive. \<open>handleSaveMeal_pressed\<close> is the first part, cut before
  \<^verbatim>\<open>await syncSupabaseAuth()\<close>; it yields the values the rest of the call has
  captured, when the guard let the call through. \<open>handleSaveMeal_settled\<close> is the rest.
  The code enters \<open>syncSupabaseAuth\<close> and calls \<open>getSession\<close> still inside the press, and
  only then waits; a call and its reply are one step here, so the event \<open>MainGetSession\<close>
  is counted with the second part, where the reply is taken. The state the press leaves
  is the same either way.
\<close>

type_synonym saving = "FoodAnalysisResult \<times> string \<times> auth_user"

definition handleSaveMeal_pressed :: "saving option prog" where
  "handleSaveMeal_pressed =
     seqP (console_log ''Starting meal save process'')
       (bindP get_state (\<lambda>s.
          case save_inputs s of
            None \<Rightarrow>
              seqP
                (block
                  [console_log ''Missing data:'',
                   Alert_alert ''Error'' ''Missing data required to save meal''])
                (ret None)
          | Some c \<Rightarrow> seqP save_started (ret (Some c))))"

definition handleSaveMeal_settled :: "env \<Rightarrow> saving \<Rightarrow> unit prog" where
  "handleSaveMeal_settled env c =
     (case c of (res, fileUri, usr) \<Rightarrow> try_catch (save_awaited env res fileUri usr) save_failed)"

text \<open>One mounted \<open>ResultsScreen\<close> with the saves that are in flight: started by a press
  and not yet settled.\<close>

record results_run =
  screen :: app
  in_flight :: "saving list"

datatype results_event =
    SavePressed
  | SaveSettles env
  | CancelPressed
  | BackPressed
  | RetryPressed "thrown + FoodAnalysisResult"

fun results_step :: "results_event \<Rightarrow> results_run \<Rightarrow> results_run" where
  "results_step SavePressed r =
     (if can_press_save (screen r)
      then (case handleSaveMeal_pressed (screen r) of
              (t, s', Normal (Some c)) \<Rightarrow> \<lparr>screen = s', in_flight = in_flight r @ [c]\<rparr>
            | (t, s', _) \<Rightarrow> r\<lparr>screen := s'\<rparr>)
      else r)"
| "results_step (SaveSettles env) r =
     (case in_flight r of
        [] \<Rightarrow> r
      | c # cs \<Rightarrow> \<lparr>screen = final (handleSaveMeal_settled env c (screen r)), in_flight = cs\<rparr>)"
| "results_step CancelPressed r =
     (if can_press_cancel (screen r) then r\<lparr>screen := final (handleCancel (screen r))\<rparr> else r)"
| "results_step BackPressed r =
     (if route (screen r) = ResultsRoute then r\<lparr>screen := final (handleBack (screen r))\<rparr> else r)"
| "results_step (RetryPressed reply) r =
     (if route (screen r) = ResultsRoute \<and> retry_button (ResultsScreen (screen r))
      then r\<lparr>screen := final (handleRetry reply (screen r))\<rparr> else r)"

fun results_steps :: "results_event list \<Rightarrow> results_run \<Rightarrow> results_run" where
  "results_steps [] r = r"
| "results_steps (e # es) r = results_steps es (results_step e r)"

section \<open>CameraScreen\<close>

record permission_response =
  granted :: bool
  status :: string

record picker_result =
  canceled :: bool
  assets :: "image list option"

definition isFocused :: "app \<Rightarrow> bool" where
  "isFocused s = (route s = CameraTab)"

text \<open>The four things the screen can render. \<open>Camera True\<close> is the camera view with the
  vendor's \<open>CameraView\<close> and the \<open>CameraControls\<close> mounted; \<open>Camera False\<close> is the same
  container with neither, when the tab is not focused.\<close>

datatype camera_view = RequestingPermissions | PermissionRequest | ImagePreview | Camera bool

definition CameraScreen :: "app \<Rightarrow> camera_view" where
  "CameraScreen s =
     (if hasCameraPermission s = None then RequestingPermissions
      else if hasCameraPermission s = Some False then PermissionRequest
      else if capturedImage s \<noteq> None then ImagePreview
      else Camera (isFocused s))"

text \<open>\<open>cameraRef.current\<close> is set while the \<open>CameraView\<close> it is attached to is mounted.\<close>

definition cameraRef_current :: "app \<Rightarrow> bool" where
  "cameraRef_current s = (CameraScreen s = Camera True)"

definition setHasCameraPermission :: "bool \<Rightarrow> unit prog" where
  "setHasCameraPermission b =
     set_state (SetHasCameraPermission b) (\<lambda>s. s\<lparr>hasCameraPermission := Some b\<rparr>)"

definition setHasGalleryPermission :: "bool \<Rightarrow> unit prog" where
  "setHasGalleryPermission b =
     set_state (SetHasGalleryPermission b) (\<lambda>s. s\<lparr>hasGalleryPermission := Some b\<rparr>)"

definition setIsCapturing :: "bool \<Rightarrow> unit prog" where
  "setIsCapturing b = set_state (SetIsCapturing b) (\<lambda>s. s\<lparr>isCapturing := b\<rparr>)"

definition setCapturedImage :: "image option \<Rightarrow> unit prog" where
  "setCapturedImage i = set_state (SetCapturedImage i) (\<lambda>s. s\<lparr>capturedImage := i\<rparr>)"

definition setIsAnalyzing :: "bool \<Rightarrow> unit prog" where
  "setIsAnalyzing b = set_state (SetIsAnalyzing b) (\<lambda>s. s\<lparr>isAnalyzing := b\<rparr>)"

text \<open>
  The effect of the mount. \<open>permission\<close> is what the permissions hook holds at that
  moment (\<open>None\<close>: nothing yet, \<open>Some g\<close>: \<open>permission.granted\<close>). The three requests are
  awaited in turn, outside any \<open>try\<close>.
\<close>

definition CameraScreen_effect ::
  "bool option \<Rightarrow> thrown + bool \<Rightarrow> thrown + bool \<Rightarrow> thrown + bool \<Rightarrow> unit prog" where
  "CameraScreen_effect permission requested media gallery =
     block
      [(case permission of
          Some g \<Rightarrow> setHasCameraPermission g
        | None \<Rightarrow> bindP (call RequestCameraPermission requested) setHasCameraPermission),
       bindP (call RequestMediaLibraryPermission media) (\<lambda>_. ret ()),
       bindP (call RequestGalleryPermission gallery) setHasGalleryPermission]"

definition takePicture :: "thrown + image \<Rightarrow> unit prog" where
  "takePicture reply =
     bindP get_state (\<lambda>s.
       if \<not> cameraRef_current s then ret ()
       else
         try_catch
           (block
             [setIsCapturing True,
              Haptics ImpactMedium,
              bindP (call TakePictureAsync reply) (\<lambda>photo.
                block [setCapturedImage (Some photo), setIsCapturing False, Haptics NotifySuccess])])
           (\<lambda>err.
              block
               [console_error ''Error taking picture:'',
                setIsCapturing False,
                Alert_alert ''Error'' ''Failed to take picture. Please try again.'']))"

text \<open>\<^verbatim>\<open>n || d\<close> on a dimension.\<close>

definition or_default :: "nat \<Rightarrow> nat \<Rightarrow> nat" where
  "or_default n d = (if n = 0 then d else n)"

definition pick_image :: "thrown + picker_result \<Rightarrow> unit prog" where
  "pick_image picked =
     bindP (call LaunchImageLibrary picked) (\<lambda>res.
       case (canceled res, assets res) of
         (False, Some (selectedImage # _)) \<Rightarrow>
           block
            [setCapturedImage
               (Some \<lparr>uri = uri selectedImage,
                      width = or_default (width selectedImage) 800,
                      height = or_default (height selectedImage) 600\<rparr>),
             Haptics NotifySuccess,
             Haptics NotifySuccess]
       | _ \<Rightarrow> ret ())"

definition handleGalleryOpen ::
  "thrown + permission_response \<Rightarrow> thrown + picker_result \<Rightarrow> unit prog" where
  "handleGalleryOpen asked picked =
     try_catch
       (bindP get_state (\<lambda>s.
          if hasGalleryPermission s \<noteq> Some True
          then bindP (call RequestGalleryPermission asked) (\<lambda>galleryStatus.
                 if \<not> granted galleryStatus
                 then Alert_alert ''Permission required''
                        ''We need access to your photo gallery to select images.''
                 else seqP (setHasGalleryPermission (status galleryStatus = ''granted''))
                        (pick_image picked))
          else pick_image picked))
       (\<lambda>err.
          block
           [console_error ''Error opening gallery:'',
            Alert_alert ''Error'' ''Failed to open gallery. Please try again.'',
            Haptics NotifyError])"

text \<open>\<open>handleRetake\<close> clears the image from a timer, 300 ms later.\<close>

definition handleRetake :: "unit prog" where
  "handleRetake =
     try_catch
       (block
         [setIsAnalyzing False,
          set_state (SetTimeout 300) (\<lambda>s. s\<lparr>retake_timers := Suc (retake_timers s)\<rparr>),
          Haptics ImpactLight])
       (\<lambda>err.
          block
           [console_error ''Error retaking picture:'',
            Alert_alert ''Error'' ''Failed to reset camera. Please try again.''])"

definition retake_timer :: "unit prog" where
  "retake_timer =
     seqP (modify (\<lambda>s. s\<lparr>retake_timers := retake_timers s - 1\<rparr>)) (setCapturedImage None)"

text \<open>\<^verbatim>\<open>router.push({ pathname: "/results", params: { imageUri } })\<close> mounts a new
  \<open>ResultsScreen\<close>: its state variables start from their initial values.\<close>

definition router_push_results :: "string \<Rightarrow> unit prog" where
  "router_push_results processedImageUri =
     set_state (RouterPush ''/results'' processedImageUri)
       (\<lambda>s. s\<lparr>route := ResultsRoute, imageUri := Some processedImageUri, result := None,
              isLoading := True, error := None, isSaving := False\<rparr>)"

definition handleAnalyzeImage :: "thrown + string \<Rightarrow> unit prog" where
  "handleAnalyzeImage reply =
     bindP get_state (\<lambda>s.
       case capturedImage s of
         None \<Rightarrow> ret ()
       | Some img \<Rightarrow>
           try_catch
             (block
               [setIsAnalyzing True,
                Haptics ImpactMedium,
                bindP (call (ProcessImageForAI (uri img)) reply) router_push_results])
             (\<lambda>err.
                block
                 [console_error ''Error analyzing image:'',
                  setIsAnalyzing False,
                  Alert_alert ''Error'' ''Failed to analyze image. Please try again.'']))"

section \<open>The application: what a user and the outside can do, one action at a time\<close>

text \<open>
  Each action is a press on a rendered control, a timer, a mount or a change of the auth
  state, together with the replies the outside gives during the handler it starts.
\<close>

datatype action =
    MountCamera "bool option" "thrown + bool" "thrown + bool" "thrown + bool"
  | PressGrantPermission
  | PressCapture "thrown + image"
  | PressGallery "thrown + permission_response" "thrown + picker_result"
  | PressRetake
  | RetakeTimerFires
  | PressAnalyze "thrown + string" "thrown + FoodAnalysisResult"
  | PressBack
  | PressRetry "thrown + FoodAnalysisResult"
  | PressCancel
  | PressSave env
  | SwitchTab route
  | AuthStateChange "(session \<times> auth_user option) option" env

text \<open>Mounting \<open>CameraScreen\<close>: its state variables start from their initial values, then
  the effect runs.\<close>

definition mount_camera ::
  "bool option \<Rightarrow> thrown + bool \<Rightarrow> thrown + bool \<Rightarrow> thrown + bool \<Rightarrow> unit prog" where
  "mount_camera permission requested media gallery =
     seqP
       (modify (\<lambda>s. s\<lparr>hasCameraPermission := None, hasGalleryPermission := None,
                      isCapturing := False, capturedImage := None, isAnalyzing := False\<rparr>))
       (CameraScreen_effect permission requested media gallery)"

text \<open>The listener of \<open>AuthProvider\<close>: the main handle's session has changed; the context
  takes the session's user, and the db handle is synchronised when there is a session.\<close>

definition onAuthStateChange :: "(session \<times> auth_user option) option \<Rightarrow> env \<Rightarrow> unit prog" where
  "onAuthStateChange change env =
     block
      [modify (\<lambda>s. s\<lparr>main_session := map_option fst change\<rparr>),
       console_log ''Auth state changed:'',
       modify (\<lambda>s. s\<lparr>user := (case change of Some (_, u) \<Rightarrow> u | None \<Rightarrow> None)\<rparr>),
       (case change of
          Some _ \<Rightarrow>
            seqP (syncSupabaseAuth env) (console_log ''Auth state synchronized after change'')
        | None \<Rightarrow> ret ())]"

text \<open>Whether the control of an action is there to be pressed.\<close>

fun enabled :: "action \<Rightarrow> app \<Rightarrow> bool" where
  "enabled (MountCamera _ _ _ _) s = True"
| "enabled PressGrantPermission s = (route s = CameraTab \<and> CameraScreen s = PermissionRequest)"
| "enabled (PressCapture _) s = (CameraScreen s = Camera True)"
| "enabled (PressGallery _ _) s = (CameraScreen s = Camera True)"
| "enabled PressRetake s = (route s = CameraTab \<and> CameraScreen s = ImagePreview)"
| "enabled RetakeTimerFires s = (0 < retake_timers s)"
| "enabled (PressAnalyze _ _) s = (route s = CameraTab \<and> CameraScreen s = ImagePreview)"
| "enabled PressBack s = (route s = ResultsRoute)"
| "enabled (PressRetry _) s = (route s = ResultsRoute \<and> retry_button (ResultsScreen s))"
| "enabled PressCancel s = can_press_cancel s"
| "enabled (PressSave _) s = can_press_save s"
| "enabled (SwitchTab r) s = (route s \<noteq> ResultsRoute \<and> r \<noteq> ResultsRoute)"
| "enabled (AuthStateChange _ _) s = True"

fun handler :: "action \<Rightarrow> unit prog" where
  "handler (MountCamera permission requested media gallery) =
     mount_camera permission requested media gallery"
| "handler PressGrantPermission = emit RequestCameraPermission"
| "handler (PressCapture reply) = takePicture reply"
| "handler (PressGallery asked picked) = handleGalleryOpen asked picked"
| "handler PressRetake = handleRetake"
| "handler RetakeTimerFires = retake_timer"
| "handler (PressAnalyze processed analysed) =
     seqP (handleAnalyzeImage processed)
       (bindP get_state (\<lambda>s.
          if route s = ResultsRoute then ResultsScreen_effect analysed else ret ()))"
| "handler PressBack = handleBack"
| "handler (PressRetry reply) = handleRetry reply"
| "handler PressCancel = handleCancel"
| "handler (PressSave env) = handleSaveMeal env"
| "handler (SwitchTab r) = modify (\<lambda>s. s\<lparr>route := r\<rparr>)"
| "handler (AuthStateChange change env) = onAuthStateChange change env"

definition step :: "action \<Rightarrow> app \<Rightarrow> event list \<times> app" where
  "step a s = (if enabled a s then (events (handler a s), final (handler a s)) else ([], s))"

text \<open>A run: the events so far and the state, through a list of actions.\<close>

fun run :: "action list \<Rightarrow> event list \<times> app \<Rightarrow> event list \<times> app" where
  "run [] c = c"
| "run (a # as) (t, s) = (case step a s of (t', s') \<Rightarrow> run as (t @ t', s'))"

text \<open>The application as it starts: nobody signed in, on the dashboard, no screen
  mounted yet.\<close>

definition initial_app :: app where
  "initial_app =
     \<lparr>main_session = None, db_session = None, user = None, route = DashboardTab,
      hasCameraPermission = None, hasGalleryPermission = None, isCapturing = False,
      capturedImage = None, isAnalyzing = False, retake_timers = 0,
      imageUri = None, result = None, isLoading = True, error = None, isSaving = False\<rparr>"

subsection \<open>The application with saves in flight\<close>

text \<open>
  The same application, with \<open>handleSaveMeal\<close> split at its first await: a press on Save
  runs the handler up to there and leaves a save in flight; the rest runs at a later
  moment, when the replies arrive, and other actions can come in between. The state
  variables of the results screen are those of the screen that is mounted now.
\<close>

datatype moment = Does action | Settles env

fun async_step :: "moment \<Rightarrow> app \<times> saving list \<Rightarrow> app \<times> saving list" where
  "async_step (Does (PressSave env)) (s, flying) =
     (if can_press_save s
      then (case handleSaveMeal_pressed s of
              (t, s', Normal (Some c)) \<Rightarrow> (s', flying @ [c])
            | (t, s', _) \<Rightarrow> (s', flying))
      else (s, flying))"
| "async_step (Does a) (s, flying) = (snd (step a s), flying)"
| "async_step (Settles env) (s, flying) =
     (case flying of
        [] \<Rightarrow> (s, flying)
      | c # cs \<Rightarrow> (final (handleSaveMeal_settled env c s), cs))"

fun async_run :: "moment list \<Rightarrow> app \<times> saving list \<Rightarrow> app \<times> saving list" where
  "async_run [] c = c"
| "async_run (m # ms) c = async_run ms (async_step m c)"

section \<open>Reading a list of events\<close>

text \<open>\<open>preceded_by P Q t\<close>: no event of \<open>t\<close> satisfies \<open>Q\<close> unless an earlier one
  satisfies \<open>P\<close>.\<close>

fun preceded_by :: "('a \<Rightarrow> bool) \<Rightarrow> ('a \<Rightarrow> bool) \<Rightarrow> 'a list \<Rightarrow> bool" where
  "preceded_by P Q [] = True"
| "preceded_by P Q (x # xs) = (\<not> Q x \<and> (if P x then True else preceded_by P Q xs))"

text \<open>The steps of the save pipeline among the events.\<close>

datatype pipeline_step = Upload | UserLookup | Procedure | TableInsert

fun step_of :: "event \<Rightarrow> pipeline_step option" where
  "step_of (UploadThumbnail _) = Some Upload"
| "step_of DbGetUser = Some UserLookup"
| "step_of (DbRpc _ _) = Some Procedure"
| "step_of (DbInsert _ _) = Some TableInsert"
| "step_of _ = None"

definition pipeline :: "event list \<Rightarrow> pipeline_step list" where
  "pipeline t = List.map_filter step_of t"

fun is_rpc :: "event \<Rightarrow> bool" where
  "is_rpc (DbRpc _ _) = True"
| "is_rpc _ = False"

fun is_insert :: "event \<Rightarrow> bool" where
  "is_insert (DbInsert _ _) = True"
| "is_insert _ = False"

fun is_upload :: "event \<Rightarrow> bool" where
  "is_upload (UploadThumbnail _) = True"
| "is_upload _ = False"

text \<open>An image has been captured or picked: \<open>setCapturedImage\<close> is called with one.\<close>

fun is_image_taken :: "event \<Rightarrow> bool" where
  "is_image_taken (SetCapturedImage (Some _)) = True"
| "is_image_taken _ = False"

text \<open>The calls that go over the network.\<close>

fun is_network :: "event \<Rightarrow> bool" where
  "is_network MainGetSession = True"
| "is_network (DbSetSession _) = True"
| "is_network (UploadThumbnail _) = True"
| "is_network DbGetUser = True"
| "is_network (DbRpc _ _) = True"
| "is_network (DbInsert _ _) = True"
| "is_network (AnalyzeFoodImage _) = True"
| "is_network _ = False"

text \<open>The macro values an event writes to the store, in the order calories, protein,
  carbs, fat.\<close>

fun written_macros :: "event \<Rightarrow> js_number list" where
  "written_macros (DbRpc _ p) = [p_calories p, p_protein p, p_carbs p, p_fat p]"
| "written_macros (DbInsert _ r) = [col_calories r, col_protein r, col_carbs r, col_fat r]"
| "written_macros _ = []"

text \<open>The thumbnail URL an event writes to the store.\<close>

fun written_thumbnail :: "event \<Rightarrow> string option" where
  "written_thumbnail (DbRpc _ p) = Some (p_thumbnail_url p)"
| "written_thumbnail (DbInsert _ r) = Some (col_image_url r)"
| "written_thumbnail _ = None"

definition is_write :: "event \<Rightarrow> bool" where
  "is_write e = (is_rpc e \<or> is_insert e)"

text \<open>The remote procedure branch fails: the user lookup is rejected or finds nobody, or
  the procedure call is rejected or resolves with an error.\<close>

definition rpc_branch_fails :: "env \<Rightarrow> bool" where
  "rpc_branch_fails env =
     (case getUser_reply env of
        Inl _ \<Rightarrow> True
      | Inr None \<Rightarrow> True
      | Inr (Some _) \<Rightarrow>
          (case rpc_reply env of Rejects _ \<Rightarrow> True | Replies (Some _) \<Rightarrow> True | Replies None \<Rightarrow> False))"

definition insert_fails :: "env \<Rightarrow> bool" where
  "insert_fails env =
     (case insert_reply env of Rejects _ \<Rightarrow> True | Replies (Some _) \<Rightarrow> True | Replies None \<Rightarrow> False)"

text \<open>The value of \<open>thumbnailUrl\<close> once the upload has been tried.\<close>

definition thumbnail_after_upload :: "env \<Rightarrow> string" where
  "thumbnail_after_upload env =
     (case uploadThumbnail_reply env of Inr url \<Rightarrow> url | Inl _ \<Rightarrow> placeholder_url)"

text \<open>The error the table insert ends with, if any: the rejection, or the \<open>error\<close> field
  of the reply.\<close>

definition insert_error :: "env \<Rightarrow> thrown option" where
  "insert_error env = (case insert_reply env of Rejects e \<Rightarrow> Some e | Replies r \<Rightarrow> r)"

fun is_set_session :: "event \<Rightarrow> bool" where
  "is_set_session (DbSetSession _) = True"
| "is_set_session _ = False"

section \<open>Properties of programs that compose\<close>

text \<open>\<open>emits A m\<close>: whatever the state, every event of \<open>m\<close> satisfies \<open>A\<close>.\<close>

definition emits :: "(event \<Rightarrow> bool) \<Rightarrow> 'a prog \<Rightarrow> bool" where
  "emits A m = (\<forall>s. list_all A (events (m s)))"

text \<open>\<open>tracks H P m\<close>: \<open>m\<close> does not make \<open>H\<close> true of the state without emitting an event
  that satisfies \<open>P\<close>.\<close>

definition tracks :: "(app \<Rightarrow> bool) \<Rightarrow> (event \<Rightarrow> bool) \<Rightarrow> 'a prog \<Rightarrow> bool" where
  "tracks H P m = (\<forall>s. H (final (m s)) \<longrightarrow> H s \<or> list_ex P (events (m s)))"

text \<open>An image is at hand: the camera screen holds one, or the results screen was given
  one.\<close>

definition has_image :: "app \<Rightarrow> bool" where
  "has_image s = (capturedImage s \<noteq> None \<or> truthy_string (imageUri s))"

definition permission_granted :: "app \<Rightarrow> bool" where
  "permission_granted s = (hasCameraPermission s = Some True)"

fun is_permission_granted :: "event \<Rightarrow> bool" where
  "is_permission_granted (SetHasCameraPermission b) = b"
| "is_permission_granted _ = False"

fun is_capture :: "event \<Rightarrow> bool" where
  "is_capture TakePictureAsync = True"
| "is_capture _ = False"

section \<open>Concrete inputs\<close>

text \<open>A signed-in user looking at an analysed meal, and an outside where every call
  succeeds; the theorems below are run on these and on variations of them.\<close>

definition salad :: FoodAnalysisResult where
  "salad =
     \<lparr>name = ''Salad'', calories = JNum (Finite (641 / 2)), protein = JUndefined,
      carbs = JStr ''plenty'', fat = JNum (Finite (25 / 2))\<rparr>"

definition tokens :: session where
  "tokens = \<lparr>access_token = ''access-1'', refresh_token = ''refresh-1''\<rparr>"

definition alice :: auth_user where
  "alice = \<lparr>uid = ''alice''\<rparr>"

definition ready_app :: app where
  "ready_app =
     initial_app\<lparr>main_session := Some tokens, user := Some alice, route := ResultsRoute,
                 hasCameraPermission := Some True,
                 imageUri := Some ''file:///meal.jpg'', result := Some salad, isLoading := False\<rparr>"

definition fair_env :: env where
  "fair_env =
     \<lparr>StringToNumber = (\<lambda>_. NaN),
      getSession_reply = None,
      setSession_reply = Replies None,
      uploadThumbnail_reply = Inr ''https://cdn.example/thumb.jpg'',
      getUser_reply = Inr (Some alice),
      rpc_reply = Replies None,
      insert_reply = Replies None,
      now_iso = ''2025-01-01T12:00:00.000Z''\<rparr>"

definition boom :: thrown where
  "boom = Thrown (Some ''boom'')"

definition photo :: image where
  "photo = \<lparr>uri = ''file:///photo.jpg'', width = 1200, height = 900\<rparr>"

text \<open>A whole session: sign in, open the camera tab, take a picture, analyse it, save the
  meal.\<close>

definition to_results :: "action list" where
  "to_results =
     [AuthStateChange (Some (tokens, Some alice)) fair_env,
      SwitchTab CameraTab,
      MountCamera (Some True) (Inr True) (Inr True) (Inr True),
      PressCapture (Inr photo),
      PressAnalyze (Inr ''file:///meal.jpg'') (Inr salad)]"

definition meal_session :: "action list" where
  "meal_session = to_results @ [PressSave fair_env]"

text \<open>The same session, but the user does not wait for the save: back to the camera,
  retake, a second picture, a second analysis, a second save.\<close>

definition two_saves :: "moment list" where
  "two_saves =
     map Does to_results @
     [Does (PressSave fair_env),
      Does PressBack,
      Does PressRetake,
      Does RetakeTimerFires,
      Does (PressCapture (Inr photo)),
      Does (PressAnalyze (Inr ''file:///second.jpg'') (Inr salad)),
      Does (PressSave fair_env)]"

section \<open>Running the programs: lemmas\<close>

lemma events_bindP:
  "events (bindP m f s) =
     events (m s) @ (case completion (m s) of Normal a \<Rightarrow> events (f a (final (m s))) | Throws e \<Rightarrow> [])"
  by (simp add: bindP_def split: prod.splits completion.splits)

lemma final_bindP:
  "final (bindP m f s) =
     (case completion (m s) of Normal a \<Rightarrow> final (f a (final (m s))) | Throws e \<Rightarrow> final (m s))"
  by (simp add: bindP_def split: prod.splits completion.splits)

lemma completion_bindP:
  "completion (bindP m f s) =
     (case completion (m s) of Normal a \<Rightarrow> completion (f a (final (m s))) | Throws e \<Rightarrow> Throws e)"
  by (simp add: bindP_def split: prod.splits completion.splits)

lemma events_try_catch:
  "events (try_catch m h s) =
     events (m s) @ (case completion (m s) of Throws e \<Rightarrow> events (h e (final (m s))) | Normal a \<Rightarrow> [])"
  by (simp add: try_catch_def split: prod.splits completion.splits)

lemma final_try_catch:
  "final (try_catch m h s) =
     (case completion (m s) of Throws e \<Rightarrow> final (h e (final (m s))) | Normal a \<Rightarrow> final (m s))"
  by (simp add: try_catch_def split: prod.splits completion.splits)

lemma completion_try_catch:
  "completion (try_catch m h s) =
     (case completion (m s) of Throws e \<Rightarrow> completion (h e (final (m s))) | Normal a \<Rightarrow> Normal a)"
  by (simp add: try_catch_def split: prod.splits completion.splits)

lemma events_try_finally:
  "events (try_finally m f s) = events (m s) @ events (f (final (m s)))"
  by (simp add: try_finally_def split: prod.splits completion.splits)

lemma final_try_finally:
  "final (try_finally m f s) = final (f (final (m s)))"
  by (simp add: try_finally_def split: prod.splits completion.splits)

lemma completion_try_finally:
  "completion (try_finally m f s) =
     (case completion (f (final (m s))) of Throws e \<Rightarrow> Throws e | Normal _ \<Rightarrow> completion (m s))"
  by (simp add: try_finally_def split: prod.splits completion.splits)

lemma bindP_get_state: "bindP get_state f s = f s s"
  by (simp add: bindP_def get_state_def split: prod.splits)

lemmas proj =
  events_bindP final_bindP completion_bindP
  events_try_catch final_try_catch completion_try_catch
  events_try_finally final_try_finally completion_try_finally
  bindP_get_state seqP_def
  ret_def throw_def emit_def set_state_def modify_def call_def sdk_call_def

lemmas setters =
  setResult_def setIsLoading_def setError_def setIsSaving_def setHasCameraPermission_def
  setHasGalleryPermission_def setIsCapturing_def setCapturedImage_def setIsAnalyzing_def
  router_replace_tabs_def router_back_def router_push_results_def

lemma sync_completion: "completion (syncSupabaseAuth env s) = Normal ()"
  by (simp add: syncSupabaseAuth_def mainSupabase_getSession_def dbSupabase_setSession_def proj
      split: option.splits sdk_reply.splits)

lemma sync_final:
  "final (syncSupabaseAuth env s) =
     (if getSession_reply env = None \<and> setSession_reply env = Replies None \<and> main_session s \<noteq> None
      then s\<lparr>db_session := main_session s\<rparr> else s)"
  by (simp add: syncSupabaseAuth_def mainSupabase_getSession_def dbSupabase_setSession_def proj
      split: option.splits sdk_reply.splits)

lemma sync_events:
  "events (syncSupabaseAuth env s) =
     MainGetSession #
     (case getSession_reply env of
        Some e \<Rightarrow> [ConsoleError ''Error synchronizing Supabase auth:'']
      | None \<Rightarrow>
         (case main_session s of
            None \<Rightarrow> [ConsoleLog ''No active session to synchronize'']
          | Some sess \<Rightarrow>
              [DbSetSession sess,
               (case setSession_reply env of
                  Rejects e \<Rightarrow> ConsoleError ''Error synchronizing Supabase auth:''
                | Replies r \<Rightarrow> ConsoleLog ''Supabase auth synchronized successfully'')]))"
  by (simp add: syncSupabaseAuth_def mainSupabase_getSession_def dbSupabase_setSession_def proj
      split: option.splits sdk_reply.splits)

lemma upload_block_run:
  "upload_block env u s =
     ([UploadThumbnail u,
       (case uploadThumbnail_reply env of
          Inr url \<Rightarrow> ConsoleLog ''Thumbnail uploaded successfully:''
        | Inl e \<Rightarrow> ConsoleError ''Error uploading thumbnail:'')],
      s,
      Normal (case uploadThumbnail_reply env of Inr url \<Rightarrow> url | Inl e \<Rightarrow> placeholder_url))"
  by (simp add: upload_block_def try_catch_def bindP_def seqP_def call_def emit_def ret_def split: sum.splits)

lemma rpc_block_run:
  "rpc_block env res url s =
     (DbGetUser #
      (case getUser_reply env of
         Inr (Some _) \<Rightarrow>
           [ConsoleLog ''Attempting RPC call with params:'',
            DbRpc ''insert_meal'' (insert_meal_params env res url)]
           @ (case rpc_reply env of
                Replies None \<Rightarrow> [ConsoleLog ''Meal saved successfully via RPC:'']
              | _ \<Rightarrow> [])
       | _ \<Rightarrow> []),
      s,
      (case getUser_reply env of
         Inl e \<Rightarrow> Throws e
       | Inr None \<Rightarrow> Throws (Thrown (Some ''User not authenticated''))
       | Inr (Some _) \<Rightarrow>
           (case rpc_reply env of
              Rejects e \<Rightarrow> Throws e
            | Replies (Some e) \<Rightarrow> Throws e
            | Replies None \<Rightarrow> Normal ())))"
  by (simp add: rpc_block_def bindP_def seqP_def call_def sdk_call_def emit_def throw_def
      split: sum.splits option.splits sdk_reply.splits)

lemma fallback_block_run:
  "fallback_block env res usr url s =
     ([ConsoleError ''Error with RPC insert:'',
       ConsoleLog ''Attempting fallback insert with correct column names'',
       DbInsert ''meals'' (meals_row env res usr url)]
      @ (case insert_reply env of
           Replies None \<Rightarrow> [ConsoleLog ''Meal saved with fallback method:'']
         | _ \<Rightarrow> []),
      s,
      (case insert_reply env of
         Rejects e \<Rightarrow> Throws e
       | Replies (Some e) \<Rightarrow> Throws e
       | Replies None \<Rightarrow> Normal ()))"
  by (simp add: fallback_block_def bindP_def seqP_def call_def sdk_call_def emit_def throw_def ret_def
      split: sum.splits option.splits sdk_reply.splits)

lemma write_block_run:
  "write_block env res usr url s =
     (events (rpc_block env res url s)
      @ (if rpc_branch_fails env then events (fallback_block env res usr url s) else []),
      s,
      (if rpc_branch_fails env then completion (fallback_block env res usr url s) else Normal ()))"
  by (simp add: write_block_def try_catch_def rpc_block_run fallback_block_run rpc_branch_fails_def
      split: sum.splits option.splits sdk_reply.splits)

lemma save_started_run:
  "save_started s = ([SetIsSaving True, Haptic ImpactMedium], s\<lparr>isSaving := True\<rparr>, Normal ())"
  by (simp add: save_started_def setIsSaving_def seqP_def bindP_def set_state_def emit_def ret_def)

lemma save_succeeded_run:
  "save_succeeded s =
     ([SetIsSaving False, Haptic NotifySuccess, AlertShown ''Success'' ''Meal saved successfully'',
       ConsoleLog ''Navigating back to dashboard'', RouterReplace ''/(tabs)''],
      s\<lparr>isSaving := False, route := DashboardTab\<rparr>, Normal ())"
  by (simp add: save_succeeded_def setIsSaving_def router_replace_tabs_def seqP_def bindP_def
        set_state_def emit_def ret_def)

lemma save_failed_run:
  "save_failed err s =
     ([ConsoleError ''Error saving meal:'', Haptic NotifyError,
       AlertShown ''Error'' (''Failed to save meal: '' @ error_message err), SetIsSaving False],
      s\<lparr>isSaving := False\<rparr>, Normal ())"
  by (simp add: save_failed_def setIsSaving_def seqP_def bindP_def set_state_def emit_def ret_def)

lemma sync_triple:
  "syncSupabaseAuth env s =
     (events (syncSupabaseAuth env s), final (syncSupabaseAuth env s), Normal ())"
  using sync_completion [of env s] by (cases "syncSupabaseAuth env s") simp

lemma save_awaited_run:
  "save_awaited env res u usr s =
     (let s1 = final (syncSupabaseAuth env s);
          w = write_block env res usr (thumbnail_after_upload env) s1
      in (events (syncSupabaseAuth env s) @ events (upload_block env u s1) @ events w
          @ (case completion w of Normal _ \<Rightarrow> events (save_succeeded s1) | Throws e \<Rightarrow> []),
          (case completion w of Normal _ \<Rightarrow> final (save_succeeded s1) | Throws e \<Rightarrow> s1),
          (case completion w of Normal _ \<Rightarrow> Normal () | Throws e \<Rightarrow> Throws e)))"
proof -
  obtain t1 s1 where sync: "syncSupabaseAuth env s = (t1, s1, Normal ())"
    using sync_triple by blast
  show ?thesis
    by (simp add: save_awaited_def seqP_def bindP_def sync upload_block_run write_block_run
          save_succeeded_run thumbnail_after_upload_def ret_def Let_def
        split: completion.splits)
qed

lemma handleSaveMeal_run:
  "save_inputs s = Some (res, u, usr) \<Longrightarrow>
   handleSaveMeal env s =
     (let s1 = final (syncSupabaseAuth env (s\<lparr>isSaving := True\<rparr>));
          w = write_block env res usr (thumbnail_after_upload env) s1
      in ([ConsoleLog ''Starting meal save process'', SetIsSaving True, Haptic ImpactMedium]
          @ events (syncSupabaseAuth env (s\<lparr>isSaving := True\<rparr>))
          @ events (upload_block env u s1) @ events w
          @ (case completion w of
               Normal _ \<Rightarrow> events (save_succeeded s1)
             | Throws e \<Rightarrow> events (save_failed e s1)),
          (case completion w of
             Normal _ \<Rightarrow> final (save_succeeded s1)
           | Throws e \<Rightarrow> final (save_failed e s1)),
          Normal ()))"
  by (simp add: handleSaveMeal_def seqP_def bindP_def get_state_def emit_def try_catch_def
        save_started_run save_awaited_run save_failed_run save_succeeded_run Let_def
      split: completion.splits)

lemma handleSaveMeal_guarded:
  "save_inputs s = None \<Longrightarrow>
   handleSaveMeal env s =
     ([ConsoleLog ''Starting meal save process'', ConsoleLog ''Missing data:'',
       AlertShown ''Error'' ''Missing data required to save meal''], s, Normal ())"
  by (simp add: handleSaveMeal_def seqP_def bindP_def get_state_def emit_def ret_def)

lemma pipeline_append: "pipeline (xs @ ys) = pipeline xs @ pipeline ys"
  by (simp add: pipeline_def List.map_filter_def)

lemma pipeline_Cons: "pipeline (x # xs) = (case step_of x of Some p \<Rightarrow> p # pipeline xs | None \<Rightarrow> pipeline xs)"
  by (simp add: pipeline_def List.map_filter_def split: option.splits)

lemma pipeline_Nil: "pipeline [] = []"
  by (simp add: pipeline_def List.map_filter_def)

lemmas pipeline_simps = pipeline_append pipeline_Cons pipeline_Nil

lemma pipeline_sync: "pipeline (events (syncSupabaseAuth env s)) = []"
  by (simp add: sync_events pipeline_simps split: option.splits sdk_reply.splits)

lemma pipeline_upload: "pipeline (events (upload_block env u s)) = [Upload]"
  by (simp add: upload_block_run pipeline_simps split: sum.splits)

lemma pipeline_write:
  "pipeline (events (write_block env res usr url s)) =
     UserLookup # (case getUser_reply env of Inr (Some _) \<Rightarrow> [Procedure] | _ \<Rightarrow> [])
     @ (if rpc_branch_fails env then [TableInsert] else [])"
  by (simp add: write_block_run rpc_block_run fallback_block_run pipeline_simps rpc_branch_fails_def
      split: sum.splits option.splits sdk_reply.splits)

lemma save_pipeline:
  "save_inputs s = Some c \<Longrightarrow>
   pipeline (events (handleSaveMeal env s)) =
     [Upload, UserLookup] @ (case getUser_reply env of Inr (Some _) \<Rightarrow> [Procedure] | _ \<Rightarrow> [])
     @ (if rpc_branch_fails env then [TableInsert] else [])"
  by (cases c)
     (simp add: handleSaveMeal_run Let_def pipeline_append pipeline_sync pipeline_upload pipeline_write
        save_succeeded_run save_failed_run pipeline_Cons pipeline_Nil
      split: completion.splits)

lemma writes_sync: "filter is_write (events (syncSupabaseAuth env s)) = []"
  by (simp add: sync_events is_write_def split: option.splits sdk_reply.splits)

lemma writes_upload: "filter is_write (events (upload_block env u s)) = []"
  by (simp add: upload_block_run is_write_def split: sum.splits)

lemma writes_write:
  "filter is_write (events (write_block env res usr url s)) =
     (case getUser_reply env of
        Inr (Some _) \<Rightarrow> [DbRpc ''insert_meal'' (insert_meal_params env res url)]
      | _ \<Rightarrow> [])
     @ (if rpc_branch_fails env then [DbInsert ''meals'' (meals_row env res usr url)] else [])"
  by (simp add: write_block_run rpc_block_run fallback_block_run is_write_def rpc_branch_fails_def
      split: sum.splits option.splits sdk_reply.splits)

lemma save_writes:
  "save_inputs s = Some (res, u, usr) \<Longrightarrow>
   filter is_write (events (handleSaveMeal env s)) =
     (case getUser_reply env of
        Inr (Some _) \<Rightarrow> [DbRpc ''insert_meal'' (insert_meal_params env res (thumbnail_after_upload env))]
      | _ \<Rightarrow> [])
     @ (if rpc_branch_fails env
        then [DbInsert ''meals'' (meals_row env res usr (thumbnail_after_upload env))] else [])"
  by (simp add: handleSaveMeal_run Let_def writes_sync writes_upload writes_write
        save_succeeded_run save_failed_run is_write_def
      split: completion.splits)

lemma macro_cases:
  "macro S x =
     (case Number S x of
        NaN \<Rightarrow> Finite 0
      | PosInfinity \<Rightarrow> PosInfinity
      | NegInfinity \<Rightarrow> NegInfinity
      | Finite r \<Rightarrow> Finite (of_int \<lfloor>r + 1 / 2\<rfloor>))"
  by (cases "Number S x") (auto simp: macro_def or_zero_def)

lemma save_inputs_Some:
  "save_inputs s = Some (res, u, usr) \<longleftrightarrow>
     result s = Some res \<and> imageUri s = Some u \<and> u \<noteq> [] \<and> user s = Some usr"
  by (auto simp: save_inputs_def split: option.splits)

lemma save_inputs_None:
  "save_inputs s = None \<longleftrightarrow> result s = None \<or> \<not> truthy_string (imageUri s) \<or> user s = None"
  by (cases "imageUri s") (auto simp: save_inputs_def split: option.splits)

lemma ready_inputs: "save_inputs ready_app = Some (salad, ''file:///meal.jpg'', alice)"
  by (simp add: save_inputs_def ready_app_def initial_app_def)

lemma salad_macros:
  "macro (\<lambda>_. NaN) (calories salad) = Finite 321"
  "macro (\<lambda>_. NaN) (protein salad) = Finite 0"
  "macro (\<lambda>_. NaN) (carbs salad) = Finite 0"
  "macro (\<lambda>_. NaN) (fat salad) = Finite 13"
  by (simp_all add: macro_def or_zero_def salad_def)

lemma filter_within: "(\<And>x. P x \<Longrightarrow> Q x) \<Longrightarrow> filter P (filter Q xs) = filter P xs"
  by (induction xs) auto

lemmas run_tables =
  sync_events sync_final upload_block_run write_block_run rpc_block_run fallback_block_run
  save_succeeded_run save_failed_run thumbnail_after_upload_def rpc_branch_fails_def Let_def

lemmas concrete = ready_app_def initial_app_def fair_env_def

lemma ready_fair_events:
  "events (handleSaveMeal fair_env ready_app) =
     [ConsoleLog ''Starting meal save process'', SetIsSaving True, Haptic ImpactMedium,
      MainGetSession, DbSetSession tokens, ConsoleLog ''Supabase auth synchronized successfully'',
      UploadThumbnail ''file:///meal.jpg'', ConsoleLog ''Thumbnail uploaded successfully:'',
      DbGetUser, ConsoleLog ''Attempting RPC call with params:'',
      DbRpc ''insert_meal'' (insert_meal_params fair_env salad ''https://cdn.example/thumb.jpg''),
      ConsoleLog ''Meal saved successfully via RPC:'',
      SetIsSaving False, Haptic NotifySuccess, AlertShown ''Success'' ''Meal saved successfully'',
      ConsoleLog ''Navigating back to dashboard'', RouterReplace ''/(tabs)'']"
  by (subst handleSaveMeal_run [OF ready_inputs]) (simp add: run_tables concrete)

lemma writes_explained:
  assumes "e \<in> set (events (handleSaveMeal env s))" and "is_write e"
  shows "\<exists>res usr. result s = Some res \<and> user s = Some usr \<and>
          (e = DbRpc ''insert_meal'' (insert_meal_params env res (thumbnail_after_upload env)) \<or>
           e = DbInsert ''meals'' (meals_row env res usr (thumbnail_after_upload env)))"
proof (cases "save_inputs s")
  case None
  with assms show ?thesis by (auto simp: handleSaveMeal_guarded is_write_def)
next
  case (Some c)
  obtain res u usr where c: "c = (res, u, usr)" by (cases c)
  from assms have "e \<in> set (filter is_write (events (handleSaveMeal env s)))" by simp
  with Some c have
    "e = DbRpc ''insert_meal'' (insert_meal_params env res (thumbnail_after_upload env)) \<or>
     e = DbInsert ''meals'' (meals_row env res usr (thumbnail_after_upload env))"
    by (auto simp: save_writes split: sum.splits option.splits if_splits)
  moreover from Some c have "result s = Some res" "user s = Some usr"
    by (simp_all add: save_inputs_Some)
  ultimately show ?thesis by blast
qed

lemma write_fails:
  "rpc_branch_fails env \<Longrightarrow> insert_error env = Some err \<Longrightarrow>
   completion (write_block env res usr url s) = Throws err"
  by (simp add: write_block_run fallback_block_run insert_error_def split: sdk_reply.splits)

lemma save_fails_run:
  assumes "save_inputs s = Some (res, u, usr)" "rpc_branch_fails env" "insert_error env = Some err"
  shows "handleSaveMeal env s =
     ([ConsoleLog ''Starting meal save process'', SetIsSaving True, Haptic ImpactMedium]
      @ events (syncSupabaseAuth env (s\<lparr>isSaving := True\<rparr>))
      @ events (upload_block env u (final (syncSupabaseAuth env (s\<lparr>isSaving := True\<rparr>))))
      @ events (write_block env res usr (thumbnail_after_upload env)
                  (final (syncSupabaseAuth env (s\<lparr>isSaving := True\<rparr>))))
      @ [ConsoleError ''Error saving meal:'', Haptic NotifyError,
         AlertShown ''Error'' (''Failed to save meal: '' @ error_message err), SetIsSaving False],
      final (syncSupabaseAuth env (s\<lparr>isSaving := True\<rparr>))\<lparr>isSaving := False\<rparr>,
      Normal ())"
  using assms by (simp add: handleSaveMeal_run Let_def write_fails save_failed_run)

lemma floor_halves: "\<lfloor>1 / 2 :: rat\<rfloor> = 0" "\<lfloor>3 / 2 :: rat\<rfloor> = 1"
  by (simp_all add: floor_eq_iff)

lemma uploads_sync: "filter is_upload (events (syncSupabaseAuth env s)) = []"
  by (simp add: sync_events split: option.splits sdk_reply.splits)

lemma uploads_write: "filter is_upload (events (write_block env res usr url s)) = []"
  by (simp add: write_block_run rpc_block_run fallback_block_run
      split: sum.splits option.splits sdk_reply.splits)

lemma save_uploads:
  "save_inputs s = Some (res, u, usr) \<Longrightarrow>
   filter is_upload (events (handleSaveMeal env s)) = [UploadThumbnail u]"
  by (simp add: handleSaveMeal_run Let_def uploads_sync uploads_write upload_block_run
        save_succeeded_run save_failed_run
      split: completion.splits sum.splits)

subsection \<open>Rules for emits and tracks\<close>

lemma emits_ret: "emits A (ret a)"
  and emits_throw: "emits A (throw e)"
  and emits_get_state: "emits A get_state"
  and emits_modify: "emits A (modify f)"
  by (simp_all add: emits_def ret_def throw_def get_state_def modify_def)

lemma emits_emit: "A e \<Longrightarrow> emits A (emit e)"
  and emits_set_state: "A e \<Longrightarrow> emits A (set_state e f)"
  and emits_call: "A e \<Longrightarrow> emits A (call e r)"
  and emits_sdk_call: "A e \<Longrightarrow> emits A (sdk_call e r')"
  by (simp_all add: emits_def emit_def set_state_def call_def sdk_call_def)

lemma emits_bindP: "emits A m \<Longrightarrow> (\<And>a. emits A (f a)) \<Longrightarrow> emits A (bindP m f)"
  by (simp add: emits_def events_bindP split: completion.splits)

lemma emits_seqP: "emits A m \<Longrightarrow> emits A n \<Longrightarrow> emits A (seqP m n)"
  by (simp add: seqP_def emits_bindP)

lemma emits_try_catch: "emits A m \<Longrightarrow> (\<And>e. emits A (h e)) \<Longrightarrow> emits A (try_catch m h)"
  by (simp add: emits_def events_try_catch split: completion.splits)

lemma emits_try_finally: "emits A m \<Longrightarrow> emits A f \<Longrightarrow> emits A (try_finally m f)"
  by (simp add: emits_def events_try_finally)

lemma emits_block_Nil: "emits A (block [])"
  by (simp add: emits_ret)

lemma emits_block_Cons: "emits A m \<Longrightarrow> emits A (block ms) \<Longrightarrow> emits A (block (m # ms))"
  by (simp add: emits_seqP)

lemmas emits_rules =
  emits_ret emits_throw emits_get_state emits_modify emits_emit emits_set_state emits_call
  emits_sdk_call emits_bindP emits_seqP emits_try_catch emits_try_finally
  emits_block_Nil emits_block_Cons

lemma tracks_ret: "tracks H P (ret a)"
  and tracks_throw: "tracks H P (throw x)"
  and tracks_get_state: "tracks H P get_state"
  and tracks_emit: "tracks H P (emit e)"
  and tracks_call: "tracks H P (call e r)"
  and tracks_sdk_call: "tracks H P (sdk_call e r')"
  by (simp_all add: tracks_def ret_def throw_def get_state_def emit_def call_def sdk_call_def)

lemma tracks_modify: "(\<And>s. H (f s) \<Longrightarrow> H s) \<Longrightarrow> tracks H P (modify f)"
  by (auto simp: tracks_def modify_def)

lemma tracks_set_state: "(\<And>s. H (f s) \<Longrightarrow> H s \<or> P e) \<Longrightarrow> tracks H P (set_state e f)"
  by (auto simp: tracks_def set_state_def)

lemma tracks_bindP: "tracks H P m \<Longrightarrow> (\<And>a. tracks H P (f a)) \<Longrightarrow> tracks H P (bindP m f)"
  unfolding tracks_def
  by (auto simp: events_bindP final_bindP split: completion.splits)

lemma tracks_seqP: "tracks H P m \<Longrightarrow> tracks H P n \<Longrightarrow> tracks H P (seqP m n)"
  by (simp add: seqP_def tracks_bindP)

lemma tracks_try_catch: "tracks H P m \<Longrightarrow> (\<And>e. tracks H P (h e)) \<Longrightarrow> tracks H P (try_catch m h)"
  unfolding tracks_def
  by (auto simp: events_try_catch final_try_catch split: completion.splits)

lemma tracks_try_finally: "tracks H P m \<Longrightarrow> tracks H P f \<Longrightarrow> tracks H P (try_finally m f)"
  unfolding tracks_def
  by (auto simp: events_try_finally final_try_finally)

lemma tracks_block_Nil: "tracks H P (block [])"
  by (simp add: tracks_ret)

lemma tracks_block_Cons: "tracks H P m \<Longrightarrow> tracks H P (block ms) \<Longrightarrow> tracks H P (block (m # ms))"
  by (simp add: tracks_seqP)

lemmas tracks_rules =
  tracks_ret tracks_throw tracks_get_state tracks_emit tracks_call tracks_sdk_call
  tracks_modify tracks_set_state tracks_bindP tracks_seqP tracks_try_catch tracks_try_finally
  tracks_block_Nil tracks_block_Cons

lemmas handler_defs =
  syncSupabaseAuth_def mainSupabase_getSession_def dbSupabase_setSession_def
  analyzeFood_def ResultsScreen_effect_def handleRetry_def handleBack_def handleCancel_def
  upload_block_def rpc_block_def fallback_block_def write_block_def save_started_def
  save_succeeded_def save_awaited_def save_failed_def handleSaveMeal_def
  CameraScreen_effect_def takePicture_def pick_image_def handleGalleryOpen_def
  handleRetake_def retake_timer_def handleAnalyzeImage_def mount_camera_def onAuthStateChange_def

subsection \<open>Runs of the application\<close>

lemma preceded_by_append:
  "preceded_by P Q (xs @ ys) = (preceded_by P Q xs \<and> (list_ex P xs \<or> preceded_by P Q ys))"
  by (induction xs) auto

lemma preceded_by_none: "list_all (\<lambda>e. \<not> Q e) xs \<Longrightarrow> preceded_by P Q xs"
  by (induction xs) auto

lemma run_ordered:
  assumes quiet: "\<And>a s. enabled a s \<Longrightarrow> H s \<or> list_all (\<lambda>e. \<not> Q e) (events (handler a s))"
    and tracked: "\<And>a s. enabled a s \<Longrightarrow> H (final (handler a s)) \<Longrightarrow>
                    H s \<or> list_ex P (events (handler a s))"
  shows "preceded_by P Q t \<Longrightarrow> (H s \<longrightarrow> list_ex P t) \<Longrightarrow>
         preceded_by P Q (fst (run as (t, s))) \<and>
         (H (snd (run as (t, s))) \<longrightarrow> list_ex P (fst (run as (t, s))))"
proof (induction as arbitrary: t s)
  case Nil
  then show ?case by simp
next
  case (Cons a as)
  show ?case
  proof (cases "enabled a s")
    case False
    with Cons show ?thesis by (simp add: step_def)
  next
    case True
    let ?t = "events (handler a s)" and ?s = "final (handler a s)"
    have 1: "preceded_by P Q (t @ ?t)"
      using quiet [OF True] Cons.prems by (auto simp: preceded_by_append preceded_by_none)
    have 2: "H ?s \<longrightarrow> list_ex P (t @ ?t)"
      using tracked [OF True] Cons.prems by auto
    from Cons.IH [OF 1 2] True show ?thesis by (simp add: step_def)
  qed
qed

lemma emits_no_capture:
  "(\<And>r. a \<noteq> PressCapture r) \<Longrightarrow> emits (\<lambda>e. \<not> is_capture e) (handler a)"
  by (cases a)
     (auto simp: handler_defs setters intro!: emits_rules split: option.splits prod.splits list.splits bool.splits)

lemma emits_no_upload:
  "(\<And>env. a \<noteq> PressSave env) \<Longrightarrow> emits (\<lambda>e. \<not> is_upload e) (handler a)"
  by (cases a)
     (auto simp: handler_defs setters intro!: emits_rules split: option.splits prod.splits list.splits bool.splits)

lemma tracks_permission: "tracks permission_granted is_permission_granted (handler a)"
  by (cases a)
     (auto simp: handler_defs setters permission_granted_def intro!: tracks_rules
        split: option.splits prod.splits list.splits bool.splits)

lemma tracks_image:
  "(\<And>p q. a \<noteq> PressAnalyze p q) \<Longrightarrow> tracks has_image is_image_taken (handler a)"
  by (cases a)
     (auto simp: handler_defs setters has_image_def intro!: tracks_rules
        split: option.splits prod.splits list.splits bool.splits)

lemma permission_before_capture:
  "preceded_by is_permission_granted is_capture (fst (run as ([], initial_app)))"
proof -
  have quiet: "permission_granted s \<or> list_all (\<lambda>e. \<not> is_capture e) (events (handler a s))"
    if "enabled a s" for a s
  proof (cases "\<exists>r. a = PressCapture r")
    case True
    with that show ?thesis
      by (auto simp: CameraScreen_def permission_granted_def split: if_splits)
  next
    case False
    then have "emits (\<lambda>e. \<not> is_capture e) (handler a)" by (intro emits_no_capture) auto
    then show ?thesis by (simp add: emits_def)
  qed
  have tracked: "permission_granted s \<or> list_ex is_permission_granted (events (handler a s))"
    if "permission_granted (final (handler a s))" for a s
    using tracks_permission [of a] that by (auto simp: tracks_def)
  have "preceded_by is_permission_granted is_capture ([] :: event list)" by simp
  moreover have "permission_granted initial_app \<longrightarrow> list_ex is_permission_granted []"
    by (simp add: permission_granted_def initial_app_def)
  ultimately show ?thesis
    using run_ordered [of permission_granted is_capture is_permission_granted "[]" initial_app as]
      quiet tracked
    by blast
qed

lemma image_before_upload:
  "preceded_by is_image_taken is_upload (fst (run as ([], initial_app)))"
proof -
  have quiet: "has_image s \<or> list_all (\<lambda>e. \<not> is_upload e) (events (handler a s))"
    if "enabled a s" for a s
  proof (cases "\<exists>env. a = PressSave env")
    case True
    with that show ?thesis
      by (auto simp: can_press_save_def ResultsScreen_def has_image_def split: if_splits)
  next
    case False
    then have "emits (\<lambda>e. \<not> is_upload e) (handler a)" by (intro emits_no_upload) auto
    then show ?thesis by (simp add: emits_def)
  qed
  have tracked: "has_image s \<or> list_ex is_image_taken (events (handler a s))"
    if "enabled a s" "has_image (final (handler a s))" for a s
  proof (cases "\<exists>p q. a = PressAnalyze p q")
    case True
    with that(1) show ?thesis
      by (auto simp: CameraScreen_def has_image_def split: if_splits)
  next
    case False
    then have "tracks has_image is_image_taken (handler a)" by (intro tracks_image) auto
    with that(2) show ?thesis by (auto simp: tracks_def)
  qed
  have "preceded_by is_image_taken is_upload ([] :: event list)" by simp
  moreover have "has_image initial_app \<longrightarrow> list_ex is_image_taken []"
    by (simp add: has_image_def initial_app_def)
  ultimately show ?thesis
    using run_ordered [of has_image is_upload is_image_taken "[]" initial_app as] quiet tracked
    by blast
qed

lemmas prog_defs = ret_def throw_def bindP_def seqP_def try_catch_def try_finally_def
  get_state_def emit_def set_state_def call_def modify_def sdk_call_def

lemmas screen_defs = CameraScreen_def cameraRef_current_def isFocused_def ResultsScreen_def
  can_press_save_def can_press_cancel_def save_inputs_def

lemma meal_session_steps:
  "filter (\<lambda>e. is_image_taken e \<or> is_upload e \<or> is_capture e \<or> is_permission_granted e)
     (fst (run meal_session ([], initial_app))) =
   [SetHasCameraPermission True, TakePictureAsync, SetCapturedImage (Some photo),
    UploadThumbnail ''file:///meal.jpg'']"
  by (simp add: meal_session_def to_results_def step_def initial_app_def handler_defs prog_defs
        setters screen_defs fair_env_def)

subsection \<open>One screen, its saves in flight\<close>

lemma handleSaveMeal_pressed_run:
  "handleSaveMeal_pressed s =
     (case save_inputs s of
        None \<Rightarrow>
          ([ConsoleLog ''Starting meal save process'', ConsoleLog ''Missing data:'',
            AlertShown ''Error'' ''Missing data required to save meal''], s, Normal None)
      | Some c \<Rightarrow>
          ([ConsoleLog ''Starting meal save process'', SetIsSaving True, Haptic ImpactMedium],
           s\<lparr>isSaving := True\<rparr>, Normal (Some c)))"
  by (simp add: handleSaveMeal_pressed_def seqP_def bindP_def get_state_def emit_def ret_def
        save_started_run
      split: option.splits)

lemma handleSaveMeal_split:
  "handleSaveMeal env s =
     bindP handleSaveMeal_pressed
       (\<lambda>c. case c of None \<Rightarrow> ret () | Some c \<Rightarrow> handleSaveMeal_settled env c) s"
proof (cases "save_inputs s")
  case None
  then show ?thesis
    by (simp add: handleSaveMeal_guarded bindP_def handleSaveMeal_pressed_run ret_def)
next
  case (Some c)
  obtain res u usr where c: "c = (res, u, usr)" by (cases c)
  obtain t s' k where a: "save_awaited env res u usr (s\<lparr>isSaving := True\<rparr>) = (t, s', k)"
    by (cases "save_awaited env res u usr (s\<lparr>isSaving := True\<rparr>)")
  from Some c a show ?thesis
    by (simp add: handleSaveMeal_def seqP_def bindP_def get_state_def emit_def try_catch_def
          save_started_run handleSaveMeal_pressed_run handleSaveMeal_settled_def
        split: completion.splits prod.splits)
qed

lemma settled_resets: "isSaving (final (handleSaveMeal_settled env c s)) = False"
  by (cases c)
     (simp add: handleSaveMeal_settled_def final_try_catch save_awaited_run Let_def save_failed_run
        save_succeeded_run
      split: completion.splits)

lemma save_resets:
  "save_inputs s \<noteq> None \<Longrightarrow> isSaving (final (handleSaveMeal env s)) = False"
  by (auto simp: handleSaveMeal_run Let_def save_failed_run save_succeeded_run
      split: completion.splits)

lemma network_after_isSaving:
  "preceded_by (\<lambda>e. e = SetIsSaving True) is_network (events (handleSaveMeal env s))"
  by (cases "save_inputs s") (auto simp: handleSaveMeal_guarded handleSaveMeal_run Let_def)

lemma saving_disables:
  "isSaving s \<Longrightarrow> \<not> can_press_save s \<and> \<not> can_press_cancel s"
  by (simp add: can_press_save_def can_press_cancel_def ResultsScreen_def)

lemma keeps_isSaving_retry: "tracks (\<lambda>s. \<not> isSaving s) (\<lambda>_. False) (handleRetry reply)"
  by (auto simp: handler_defs setters intro!: tracks_rules)

text \<open>Nothing is in flight, or one save is and \<open>isSaving\<close> is set.\<close>

lemma in_flight_step:
  assumes "in_flight r = [] \<or> (length (in_flight r) = 1 \<and> isSaving (screen r))"
  shows "in_flight (results_step e r) = [] \<or>
         (length (in_flight (results_step e r)) = 1 \<and> isSaving (screen (results_step e r)))"
proof (cases e)
  case SavePressed
  show ?thesis
  proof (cases "can_press_save (screen r)")
    case True
    then have "\<not> isSaving (screen r)" using saving_disables by blast
    with assms have "in_flight r = []" by auto
    with True SavePressed show ?thesis
      by (simp add: handleSaveMeal_pressed_run split: option.splits)
  next
    case False
    with assms SavePressed show ?thesis by simp
  qed
next
  case (SaveSettles env)
  with assms show ?thesis
    by (cases "in_flight r") auto
next
  case CancelPressed
  show ?thesis
  proof (cases "can_press_cancel (screen r)")
    case True
    then have "\<not> isSaving (screen r)" using saving_disables by blast
    with assms True CancelPressed show ?thesis by auto
  next
    case False
    with assms CancelPressed show ?thesis by simp
  qed
next
  case BackPressed
  with assms show ?thesis
    by (auto simp: handleBack_def router_back_def set_state_def)
next
  case (RetryPressed reply)
  have "isSaving (screen r) \<Longrightarrow> isSaving (final (handleRetry reply (screen r)))"
    using keeps_isSaving_retry [of reply] by (auto simp: tracks_def list_ex_iff)
  with assms RetryPressed show ?thesis by auto
qed

lemma in_flight_steps:
  "in_flight r = [] \<or> (length (in_flight r) = 1 \<and> isSaving (screen r)) \<Longrightarrow>
   length (in_flight (results_steps es r)) \<le> 1"
proof (induction es arbitrary: r)
  case Nil
  then show ?case by auto
next
  case (Cons e es)
  from Cons.prems have "in_flight (results_step e r) = [] \<or>
         (length (in_flight (results_step e r)) = 1 \<and> isSaving (screen (results_step e r)))"
    by (rule in_flight_step)
  then show ?case using Cons.IH by simp
qed

section \<open>The claims\<close>

subsection \<open>C10: syncSupabaseAuth swallows every error\<close>

text \<open>
  C10. \<open>syncSupabaseAuth\<close> never rejects: whatever the two SDK calls answer, the call
  completes normally. When the main handle holds no session, no \<open>setSession\<close> call is made
  and the state, the db handle's session included, is left as it was.
\<close>
theorem syncSupabaseAuth_never_rejects:
  "completion (syncSupabaseAuth env s) = Normal () \<and>
   (main_session s = None \<longrightarrow>
      filter is_set_session (events (syncSupabaseAuth env s)) = [] \<and>
      final (syncSupabaseAuth env s) = s)"
  by (simp add: sync_completion sync_final sync_events split: option.splits)

theorem syncSupabaseAuth_never_rejects_witness:
  "main_session initial_app = None \<and>
   completion (syncSupabaseAuth (fair_env\<lparr>getSession_reply := Some boom\<rparr>) initial_app) = Normal () \<and>
   filter is_set_session (events (syncSupabaseAuth (fair_env\<lparr>getSession_reply := Some boom\<rparr>) initial_app)) = [] \<and>
   final (syncSupabaseAuth (fair_env\<lparr>getSession_reply := Some boom\<rparr>) initial_app) = initial_app"
  using syncSupabaseAuth_never_rejects [of "fair_env\<lparr>getSession_reply := Some boom\<rparr>" initial_app]
  by (simp add: initial_app_def)

subsection \<open>C2: what syncSupabaseAuth leaves on the db handle\<close>

text \<open>
  C2, as stated, fails: the main handle holds a session, \<open>setSession\<close> is rejected, the
  rejection is caught, the call resolves, and the db handle holds no session.
\<close>

theorem syncSupabaseAuth_copies_counterexample:
  "main_session ready_app = Some tokens \<and>
   completion (syncSupabaseAuth (fair_env\<lparr>setSession_reply := Rejects boom\<rparr>) ready_app) = Normal () \<and>
   db_session (final (syncSupabaseAuth (fair_env\<lparr>setSession_reply := Rejects boom\<rparr>) ready_app)) = None"
  by (simp add: sync_completion sync_final ready_app_def initial_app_def fair_env_def)

text \<open>
  C2, amended. When the main handle holds a session, the call resolves and the main
  handle keeps its session. If \<open>getSession\<close> and \<open>setSession\<close> both succeed, the db
  handle afterwards holds exactly the access and refresh token of the main handle. If
  \<open>getSession\<close> is rejected, \<open>setSession\<close> is never called and nothing changes. If
  \<open>getSession\<close> succeeds, \<open>setSession\<close> is called once, with the pair of the main handle;
  if that call is rejected or replies with an error, the failure is swallowed and the db
  handle is not guaranteed to hold the pair. The last conjunct says what the db handle
  holds then in this model, where a failed \<open>setSession\<close> leaves the handle as it was: what
  it held before, which is the pair only if it already held it.
\<close>

theorem syncSupabaseAuth_copies:
  "main_session s = Some sess \<Longrightarrow>
   completion (syncSupabaseAuth env s) = Normal () \<and>
   main_session (final (syncSupabaseAuth env s)) = Some sess \<and>
   filter is_set_session (events (syncSupabaseAuth env s)) =
     (if getSession_reply env = None
      then [DbSetSession \<lparr>access_token = access_token sess, refresh_token = refresh_token sess\<rparr>]
      else []) \<and>
   (getSession_reply env = None \<and> setSession_reply env = Replies None \<longrightarrow>
      db_session (final (syncSupabaseAuth env s)) =
        Some \<lparr>access_token = access_token sess, refresh_token = refresh_token sess\<rparr> \<and>
      db_session (final (syncSupabaseAuth env s)) = main_session (final (syncSupabaseAuth env s))) \<and>
   (getSession_reply env \<noteq> None \<longrightarrow> final (syncSupabaseAuth env s) = s) \<and>
   (getSession_reply env = None \<and> setSession_reply env \<noteq> Replies None \<longrightarrow>
      db_session (final (syncSupabaseAuth env s)) = db_session s)"
  by (simp add: sync_completion sync_final sync_events split: option.splits sdk_reply.splits)

theorem syncSupabaseAuth_copies_witness:
  "main_session ready_app = Some tokens \<and>
   db_session ready_app = None \<and>
   completion (syncSupabaseAuth fair_env ready_app) = Normal () \<and>
   main_session (final (syncSupabaseAuth fair_env ready_app)) = Some tokens \<and>
   filter is_set_session (events (syncSupabaseAuth fair_env ready_app)) = [DbSetSession tokens] \<and>
   db_session (final (syncSupabaseAuth fair_env ready_app)) = Some tokens \<and>
   filter is_set_session
     (events (syncSupabaseAuth (fair_env\<lparr>getSession_reply := Some boom\<rparr>) ready_app)) = [] \<and>
   final (syncSupabaseAuth (fair_env\<lparr>getSession_reply := Some boom\<rparr>) ready_app) = ready_app \<and>
   main_session (ready_app\<lparr>db_session := Some tokens\<rparr>) = Some tokens \<and>
   db_session (final (syncSupabaseAuth (fair_env\<lparr>setSession_reply := Rejects boom\<rparr>)
      (ready_app\<lparr>db_session := Some tokens\<rparr>))) = Some tokens"
proof -
  have m: "main_session ready_app = Some tokens" "db_session ready_app = None"
    "main_session (ready_app\<lparr>db_session := Some tokens\<rparr>) = Some tokens"
    by (simp_all add: ready_app_def initial_app_def)
  have e: "getSession_reply fair_env = None" "setSession_reply fair_env = Replies None"
    by (simp_all add: fair_env_def)
  have t: "\<lparr>access_token = access_token tokens, refresh_token = refresh_token tokens\<rparr> = tokens"
    by simp
  from syncSupabaseAuth_copies [OF m(1), of fair_env]
    syncSupabaseAuth_copies [OF m(1), of "fair_env\<lparr>getSession_reply := Some boom\<rparr>"]
    syncSupabaseAuth_copies [OF m(3), of "fair_env\<lparr>setSession_reply := Rejects boom\<rparr>"]
    m e
  show ?thesis by (simp add: t)
qed

subsection \<open>C1: the table insert is the fallback of the remote procedure\<close>

text \<open>
  C1. In a save that passes the guard, the remote procedure is the first write path: it is
  called once whenever the user lookup that precedes it finds a user, and a table insert
  is made if and only if the remote procedure branch fails. When the branch succeeds there
  is no table insert; when it fails, for whatever reason, there is exactly one, and it
  comes after the procedure call if that was made.
\<close>

theorem insert_only_as_fallback:
  "save_inputs s = Some c \<Longrightarrow>
   length (filter is_insert (events (handleSaveMeal env s))) = (if rpc_branch_fails env then 1 else 0) \<and>
   length (filter is_rpc (events (handleSaveMeal env s))) =
     (case getUser_reply env of Inr (Some _) \<Rightarrow> 1 | _ \<Rightarrow> 0) \<and>
   filter is_write (events (handleSaveMeal env s)) =
     filter is_rpc (events (handleSaveMeal env s)) @ filter is_insert (events (handleSaveMeal env s))"
proof -
  assume c: "save_inputs s = Some c"
  obtain res u usr where "c = (res, u, usr)" by (cases c)
  with c have w: "filter is_write (events (handleSaveMeal env s)) =
     (case getUser_reply env of
        Inr (Some _) \<Rightarrow> [DbRpc ''insert_meal'' (insert_meal_params env res (thumbnail_after_upload env))]
      | _ \<Rightarrow> [])
     @ (if rpc_branch_fails env
        then [DbInsert ''meals'' (meals_row env res usr (thumbnail_after_upload env))] else [])"
    by (simp add: save_writes)
  have i: "filter is_insert (events (handleSaveMeal env s)) =
      filter is_insert (filter is_write (events (handleSaveMeal env s)))"
    by (simp add: filter_within is_write_def del: filter_filter)
  have r: "filter is_rpc (events (handleSaveMeal env s)) =
      filter is_rpc (filter is_write (events (handleSaveMeal env s)))"
    by (simp add: filter_within is_write_def del: filter_filter)
  show ?thesis
    unfolding i r w by (simp split: sum.splits option.splits)
qed

theorem insert_only_as_fallback_witness:
  "save_inputs ready_app = Some (salad, ''file:///meal.jpg'', alice) \<and>
   length (filter is_insert (events (handleSaveMeal (fair_env\<lparr>rpc_reply := Replies (Some boom)\<rparr>) ready_app))) = 1 \<and>
   length (filter is_rpc (events (handleSaveMeal (fair_env\<lparr>rpc_reply := Replies (Some boom)\<rparr>) ready_app))) = 1 \<and>
   length (filter is_insert (events (handleSaveMeal fair_env ready_app))) = 0 \<and>
   length (filter is_rpc (events (handleSaveMeal fair_env ready_app))) = 1"
  using insert_only_as_fallback [OF ready_inputs, of "fair_env\<lparr>rpc_reply := Replies (Some boom)\<rparr>"]
    insert_only_as_fallback [OF ready_inputs, of fair_env]
  by (simp add: ready_inputs rpc_branch_fails_def fair_env_def)

subsection \<open>C4: what is written, and for whom\<close>

text \<open>
  C4. Without a signed-in user, or without an analysis result, or without an image, the
  save shows the error alert, writes nothing and changes nothing. Every write a save makes
  is made for a state with a result and a user: it is the remote procedure call or the
  table insert built from that result, carrying its four macro fields (calories, protein,
  carbs, fat, each passed through the rounding), and the table row is stored under the id
  of the signed-in user.
\<close>

theorem save_needs_user_result_image:
  "(user s = None \<or> result s = None \<or> \<not> truthy_string (imageUri s) \<longrightarrow>
      handleSaveMeal env s =
        ([ConsoleLog ''Starting meal save process'', ConsoleLog ''Missing data:'',
          AlertShown ''Error'' ''Missing data required to save meal''], s, Normal ())) \<and>
   (\<forall>e \<in> set (events (handleSaveMeal env s)). is_write e \<longrightarrow>
      (\<exists>res usr. result s = Some res \<and> user s = Some usr \<and>
         (e = DbRpc ''insert_meal'' (insert_meal_params env res (thumbnail_after_upload env)) \<or>
          e = DbInsert ''meals'' (meals_row env res usr (thumbnail_after_upload env))))) \<and>
   written_macros (DbRpc f (insert_meal_params env res url)) =
     map (macro (StringToNumber env)) [calories res, protein res, carbs res, fat res] \<and>
   written_macros (DbInsert t (meals_row env res usr url)) =
     map (macro (StringToNumber env)) [calories res, protein res, carbs res, fat res] \<and>
   col_user_id (meals_row env res usr url) = uid usr"
proof -
  have "user s = None \<or> result s = None \<or> \<not> truthy_string (imageUri s) \<Longrightarrow> save_inputs s = None"
    by (auto simp: save_inputs_None)
  then show ?thesis
    by (auto simp: handleSaveMeal_guarded insert_meal_params_def meals_row_def
        dest: writes_explained)
qed

theorem save_needs_user_result_image_witness:
  "user (ready_app\<lparr>user := None\<rparr>) = None \<and>
   handleSaveMeal fair_env (ready_app\<lparr>user := None\<rparr>) =
     ([ConsoleLog ''Starting meal save process'', ConsoleLog ''Missing data:'',
       AlertShown ''Error'' ''Missing data required to save meal''],
      ready_app\<lparr>user := None\<rparr>, Normal ()) \<and>
   DbRpc ''insert_meal'' (insert_meal_params fair_env salad ''https://cdn.example/thumb.jpg'')
     \<in> set (events (handleSaveMeal fair_env ready_app)) \<and>
   result ready_app = Some salad \<and> user ready_app = Some alice \<and>
   written_macros (DbRpc ''insert_meal'' (insert_meal_params fair_env salad ''https://cdn.example/thumb.jpg''))
     = [Finite 321, Finite 0, Finite 0, Finite 13]"
proof -
  have none: "user (ready_app\<lparr>user := None\<rparr>) = None" by simp
  have rpc: "DbRpc ''insert_meal'' (insert_meal_params fair_env salad ''https://cdn.example/thumb.jpg'')
     \<in> set (events (handleSaveMeal fair_env ready_app))"
    by (simp add: ready_fair_events)
  have S: "StringToNumber fair_env = (\<lambda>_. NaN)" by (simp add: fair_env_def)
  note t = save_needs_user_result_image [of "ready_app\<lparr>user := None\<rparr>" fair_env "''insert_meal''" salad
      "''https://cdn.example/thumb.jpg''" "''meals''" alice]
  from t none rpc show ?thesis
    by (simp add: salad_macros S) (simp add: ready_app_def initial_app_def)
qed

subsection \<open>C5: a failed fallback ends the save\<close>

text \<open>
  C5. When the remote procedure branch fails and the table insert fails as well, the call
  of \<open>handleSaveMeal\<close> ends in its error state: its last four events are the error log, the
  error haptic, the alert with the message of the insert's error and the reset of
  \<open>isSaving\<close>; \<open>isSaving\<close> is false afterwards, the screen is not left, the handler itself
  completes normally, and neither write path is tried again: one table insert and at most
  one procedure call were made.
\<close>

theorem failed_fallback_ends_save:
  "save_inputs s = Some c \<Longrightarrow> rpc_branch_fails env \<Longrightarrow> insert_error env = Some err \<Longrightarrow>
   completion (handleSaveMeal env s) = Normal () \<and>
   isSaving (final (handleSaveMeal env s)) = False \<and>
   route (final (handleSaveMeal env s)) = route s \<and>
   drop (length (events (handleSaveMeal env s)) - 4) (events (handleSaveMeal env s)) =
     [ConsoleError ''Error saving meal:'', Haptic NotifyError,
      AlertShown ''Error'' (''Failed to save meal: '' @ error_message err), SetIsSaving False] \<and>
   length (filter is_insert (events (handleSaveMeal env s))) = 1 \<and>
   length (filter is_rpc (events (handleSaveMeal env s))) \<le> 1"
proof -
  assume c: "save_inputs s = Some c" and f: "rpc_branch_fails env" and e: "insert_error env = Some err"
  obtain res u usr where "c = (res, u, usr)" by (cases c)
  with c have i: "save_inputs s = Some (res, u, usr)" by simp
  have w: "filter is_write (events (handleSaveMeal env s)) =
     (case getUser_reply env of
        Inr (Some _) \<Rightarrow> [DbRpc ''insert_meal'' (insert_meal_params env res (thumbnail_after_upload env))]
      | _ \<Rightarrow> [])
     @ (if rpc_branch_fails env
        then [DbInsert ''meals'' (meals_row env res usr (thumbnail_after_upload env))] else [])"
    using i by (simp add: save_writes)
  have "length (filter is_insert (filter is_write (events (handleSaveMeal env s)))) = 1"
    unfolding w using f by (simp split: sum.splits option.splits)
  then have ins: "length (filter is_insert (events (handleSaveMeal env s))) = 1"
    by (simp add: filter_within is_write_def del: filter_filter)
  have "length (filter is_rpc (filter is_write (events (handleSaveMeal env s)))) \<le> 1"
    unfolding w using f by (simp split: sum.splits option.splits)
  then have rpc: "length (filter is_rpc (events (handleSaveMeal env s))) \<le> 1"
    by (simp add: filter_within is_write_def del: filter_filter)
  have rest: "completion (handleSaveMeal env s) = Normal () \<and>
      isSaving (final (handleSaveMeal env s)) = False \<and>
      route (final (handleSaveMeal env s)) = route s \<and>
      drop (length (events (handleSaveMeal env s)) - 4) (events (handleSaveMeal env s)) =
        [ConsoleError ''Error saving meal:'', Haptic NotifyError,
         AlertShown ''Error'' (''Failed to save meal: '' @ error_message err), SetIsSaving False]"
    by (simp add: save_fails_run [OF i f e] sync_final)
  from rest ins rpc show ?thesis by simp
qed

theorem failed_fallback_ends_save_witness:
  "save_inputs ready_app = Some (salad, ''file:///meal.jpg'', alice) \<and>
   rpc_branch_fails (fair_env\<lparr>rpc_reply := Rejects boom, insert_reply := Replies (Some (Thrown None))\<rparr>) \<and>
   insert_error (fair_env\<lparr>rpc_reply := Rejects boom, insert_reply := Replies (Some (Thrown None))\<rparr>)
     = Some (Thrown None) \<and>
   isSaving (final (handleSaveMeal
      (fair_env\<lparr>rpc_reply := Rejects boom, insert_reply := Replies (Some (Thrown None))\<rparr>) ready_app)) = False \<and>
   route (final (handleSaveMeal
      (fair_env\<lparr>rpc_reply := Rejects boom, insert_reply := Replies (Some (Thrown None))\<rparr>) ready_app)) = ResultsRoute \<and>
   drop (length (events (handleSaveMeal
      (fair_env\<lparr>rpc_reply := Rejects boom, insert_reply := Replies (Some (Thrown None))\<rparr>) ready_app)) - 4)
     (events (handleSaveMeal
      (fair_env\<lparr>rpc_reply := Rejects boom, insert_reply := Replies (Some (Thrown None))\<rparr>) ready_app)) =
     [ConsoleError ''Error saving meal:'', Haptic NotifyError,
      AlertShown ''Error'' ''Failed to save meal: Unknown error'', SetIsSaving False] \<and>
   length (filter is_insert (events (handleSaveMeal
      (fair_env\<lparr>rpc_reply := Rejects boom, insert_reply := Replies (Some (Thrown None))\<rparr>) ready_app))) = 1"
proof -
  let ?env = "fair_env\<lparr>rpc_reply := Rejects boom, insert_reply := Replies (Some (Thrown None))\<rparr>"
  have f: "rpc_branch_fails ?env" by (simp add: rpc_branch_fails_def fair_env_def)
  have e: "insert_error ?env = Some (Thrown None)" by (simp add: insert_error_def)
  have r: "route ready_app = ResultsRoute" by (simp add: ready_app_def)
  from failed_fallback_ends_save [OF ready_inputs f e] f e r show ?thesis
    by (simp add: ready_inputs error_message_def)
qed

subsection \<open>C8: a failed upload does not stop the save\<close>

text \<open>
  C8. When \<open>uploadThumbnail\<close> throws in a save that passed the guard, the upload was
  tried once, the save goes on, and at least one write is attempted; every write that is
  attempted, the remote procedure call and the table insert alike, carries the
  placeholder URL as the thumbnail of the meal.
\<close>

theorem failed_upload_uses_placeholder:
  "save_inputs s = Some c \<Longrightarrow> uploadThumbnail_reply env = Inl e \<Longrightarrow>
   placeholder_url = ''https://via.placeholder.com/300x200?text=Upload+Failed'' \<and>
   length (filter is_upload (events (handleSaveMeal env s))) = 1 \<and>
   filter is_write (events (handleSaveMeal env s)) \<noteq> [] \<and>
   list_all (\<lambda>w. written_thumbnail w = Some placeholder_url)
     (filter is_write (events (handleSaveMeal env s)))"
proof -
  assume c: "save_inputs s = Some c" and e: "uploadThumbnail_reply env = Inl e"
  obtain res u usr where "c = (res, u, usr)" by (cases c)
  with c have i: "save_inputs s = Some (res, u, usr)" by simp
  from e have t: "thumbnail_after_upload env = placeholder_url"
    by (simp add: thumbnail_after_upload_def)
  show ?thesis
    by (simp add: save_writes [OF i] save_uploads [OF i] t insert_meal_params_def meals_row_def
          rpc_branch_fails_def placeholder_url_def
        split: sum.splits option.splits sdk_reply.splits)
qed

theorem failed_upload_uses_placeholder_witness:
  "save_inputs ready_app = Some (salad, ''file:///meal.jpg'', alice) \<and>
   uploadThumbnail_reply (fair_env\<lparr>uploadThumbnail_reply := Inl boom\<rparr>) = Inl boom \<and>
   length (filter is_upload (events (handleSaveMeal (fair_env\<lparr>uploadThumbnail_reply := Inl boom\<rparr>) ready_app))) = 1 \<and>
   filter is_write (events (handleSaveMeal (fair_env\<lparr>uploadThumbnail_reply := Inl boom\<rparr>) ready_app)) =
     [DbRpc ''insert_meal''
        (insert_meal_params fair_env salad ''https://via.placeholder.com/300x200?text=Upload+Failed'')]"
proof -
  let ?env = "fair_env\<lparr>uploadThumbnail_reply := Inl boom\<rparr>"
  have e: "uploadThumbnail_reply ?env = Inl boom" by simp
  have w: "filter is_write (events (handleSaveMeal ?env ready_app)) =
     [DbRpc ''insert_meal''
        (insert_meal_params fair_env salad ''https://via.placeholder.com/300x200?text=Upload+Failed'')]"
    by (simp add: save_writes [OF ready_inputs] thumbnail_after_upload_def rpc_branch_fails_def
          placeholder_url_def insert_meal_params_def fair_env_def)
  from failed_upload_uses_placeholder [OF ready_inputs e] w show ?thesis
    by (simp add: ready_inputs)
qed

subsection \<open>C9: the macro values that are written\<close>

text \<open>
  C9, as stated, fails: a result whose calories are \<open>Infinity\<close> is written with
  \<open>p_calories = Infinity\<close>, which is not an integer (the other three values of that write
  are integers).
\<close>

theorem macros_are_integers_counterexample:
  "map is_integer
     (concat (map written_macros
        (events (handleSaveMeal fair_env
           (ready_app\<lparr>result := Some (salad\<lparr>calories := JNum PosInfinity\<rparr>)\<rparr>))))) =
   [False, True, True, True]"
proof -
  have i: "save_inputs (ready_app\<lparr>result := Some (salad\<lparr>calories := JNum PosInfinity\<rparr>)\<rparr>) =
      Some (salad\<lparr>calories := JNum PosInfinity\<rparr>, ''file:///meal.jpg'', alice)"
    by (simp add: save_inputs_def ready_app_def initial_app_def)
  show ?thesis
    unfolding handleSaveMeal_run [OF i]
    by (simp add: run_tables concrete insert_meal_params_def macro_def or_zero_def salad_def)
qed

text \<open>
  C9, amended. In both write paths the four macro values are
  \<^verbatim>\<open>Math.round(Number(x)) || 0\<close> of the result's fields. When \<open>Number(x)\<close> is finite
  the value written is the integer nearest to it, ties upwards; when \<open>Number(x)\<close> is NaN
  (a missing field, a string that is not a number) it is 0; when \<open>Number(x)\<close> is an
  infinity, that infinity is written unchanged. \<open>null\<close> and \<open>false\<close> give 0 and \<open>true\<close>
  gives 1, as \<open>Number\<close> maps them.
\<close>

theorem macros_written:
  "(\<forall>e \<in> set (events (handleSaveMeal env s)). is_write e \<longrightarrow>
      (\<exists>res. result s = Some res \<and>
         written_macros e =
           map (macro (StringToNumber env)) [calories res, protein res, carbs res, fat res])) \<and>
   (\<forall>r. Number S x = Finite r \<longrightarrow>
      macro S x = Finite (of_int \<lfloor>r + 1 / 2\<rfloor>) \<and> is_integer (macro S x)) \<and>
   (Number S x = NaN \<longrightarrow> macro S x = Finite 0) \<and>
   (Number S x = PosInfinity \<longrightarrow> macro S x = PosInfinity) \<and>
   (Number S x = NegInfinity \<longrightarrow> macro S x = NegInfinity) \<and>
   macro S JUndefined = Finite 0 \<and> macro S JNull = Finite 0 \<and>
   macro S (JBool False) = Finite 0 \<and> macro S (JBool True) = Finite 1"
proof -
  have "\<And>e. e \<in> set (events (handleSaveMeal env s)) \<Longrightarrow> is_write e \<Longrightarrow>
      \<exists>res. result s = Some res \<and>
         written_macros e =
           map (macro (StringToNumber env)) [calories res, protein res, carbs res, fat res]"
    by (drule (1) writes_explained) (auto simp: insert_meal_params_def meals_row_def)
  then show ?thesis
    by (auto simp: macro_cases floor_halves)
qed

theorem macros_written_witness:
  "Number (\<lambda>_. NaN) (JNum (Finite (641 / 2))) = Finite (641 / 2) \<and>
   macro (\<lambda>_. NaN) (JNum (Finite (641 / 2))) = Finite 321 \<and>
   is_integer (macro (\<lambda>_. NaN) (JNum (Finite (641 / 2)))) \<and>
   Number (\<lambda>_. NaN) (JStr ''plenty'') = NaN \<and>
   macro (\<lambda>_. NaN) (JStr ''plenty'') = Finite 0 \<and>
   DbRpc ''insert_meal'' (insert_meal_params fair_env salad ''https://cdn.example/thumb.jpg'')
     \<in> set (events (handleSaveMeal fair_env ready_app)) \<and>
   written_macros (DbRpc ''insert_meal'' (insert_meal_params fair_env salad ''https://cdn.example/thumb.jpg''))
     = [Finite 321, Finite 0, Finite 0, Finite 13]"
proof -
  have rpc: "DbRpc ''insert_meal'' (insert_meal_params fair_env salad ''https://cdn.example/thumb.jpg'')
     \<in> set (events (handleSaveMeal fair_env ready_app))"
    by (simp add: ready_fair_events)
  have S: "StringToNumber fair_env = (\<lambda>_. NaN)" by (simp add: fair_env_def)
  have w: "is_write (DbRpc ''insert_meal'' (insert_meal_params fair_env salad ''https://cdn.example/thumb.jpg''))"
    by (simp add: is_write_def)
  have r: "result ready_app = Some salad" by (simp add: ready_app_def)
  note t = macros_written [of fair_env ready_app "\<lambda>_. NaN" "JNum (Finite (641 / 2))"]
  note u = macros_written [of fair_env ready_app "\<lambda>_. NaN" "JStr ''plenty''"]
  from t have "\<forall>e \<in> set (events (handleSaveMeal fair_env ready_app)). is_write e \<longrightarrow>
      (\<exists>res. result ready_app = Some res \<and>
         written_macros e =
           map (macro (StringToNumber fair_env)) [calories res, protein res, carbs res, fat res])"
    by (rule conjunct1)
  with rpc w obtain res where "result ready_app = Some res"
    "written_macros (DbRpc ''insert_meal'' (insert_meal_params fair_env salad ''https://cdn.example/thumb.jpg''))
       = map (macro (StringToNumber fair_env)) [calories res, protein res, carbs res, fat res]"
    by blast
  with r have m:
    "written_macros (DbRpc ''insert_meal'' (insert_meal_params fair_env salad ''https://cdn.example/thumb.jpg''))
       = [Finite 321, Finite 0, Finite 0, Finite 13]"
    by (simp add: S salad_macros)
  from t have "Number (\<lambda>_. NaN) (JNum (Finite (641 / 2))) = Finite (641 / 2) \<longrightarrow>
      macro (\<lambda>_. NaN) (JNum (Finite (641 / 2))) = Finite (of_int \<lfloor>641 / 2 + 1 / (2::rat)\<rfloor>) \<and>
      is_integer (macro (\<lambda>_. NaN) (JNum (Finite (641 / 2))))"
    by blast
  then have a: "macro (\<lambda>_. NaN) (JNum (Finite (641 / 2))) = Finite 321 \<and>
      is_integer (macro (\<lambda>_. NaN) (JNum (Finite (641 / 2))))"
    by simp
  from u have b: "macro (\<lambda>_. NaN) (JStr ''plenty'') = Finite 0"
    by simp
  from a b m rpc show ?thesis by simp
qed

subsection \<open>C7: no capture without the camera permission\<close>

text \<open>
  C7. While the permission state is unknown the screen renders the loading view, while it
  is denied it renders the permission request, and the camera view with its capture
  control is rendered only when the permission is granted. \<open>takePicture\<close> reaches the
  vendor's capture call only with the camera mounted, hence only with the permission
  granted; and in every run of the application from its start, every capture call comes
  after a call of \<open>setHasCameraPermission(true)\<close>.
\<close>

theorem capture_needs_permission:
  "(hasCameraPermission s = None \<longrightarrow> CameraScreen s = RequestingPermissions) \<and>
   (hasCameraPermission s = Some False \<longrightarrow> CameraScreen s = PermissionRequest) \<and>
   (CameraScreen s = Camera True \<longrightarrow> hasCameraPermission s = Some True) \<and>
   (enabled (PressCapture reply) s \<longrightarrow> hasCameraPermission s = Some True) \<and>
   (list_ex is_capture (events (takePicture reply s)) \<longrightarrow> hasCameraPermission s = Some True) \<and>
   preceded_by is_permission_granted is_capture (fst (run as ([], initial_app)))"
proof -
  have "list_ex is_capture (events (takePicture reply s)) \<Longrightarrow> cameraRef_current s"
    by (cases "cameraRef_current s") (simp_all add: takePicture_def bindP_get_state ret_def)
  then have "list_ex is_capture (events (takePicture reply s)) \<longrightarrow> hasCameraPermission s = Some True"
    by (auto simp: cameraRef_current_def CameraScreen_def split: if_splits)
  then show ?thesis
    by (auto simp: CameraScreen_def permission_before_capture split: if_splits)
qed

theorem capture_needs_permission_witness:
  "hasCameraPermission initial_app = None \<and>
   CameraScreen initial_app = RequestingPermissions \<and>
   hasCameraPermission (initial_app\<lparr>hasCameraPermission := Some False\<rparr>) = Some False \<and>
   CameraScreen (initial_app\<lparr>hasCameraPermission := Some False\<rparr>) = PermissionRequest \<and>
   events (takePicture (Inr photo) (initial_app\<lparr>hasCameraPermission := Some False\<rparr>)) = [] \<and>
   CameraScreen (initial_app\<lparr>route := CameraTab, hasCameraPermission := Some True\<rparr>) = Camera True \<and>
   enabled (PressCapture (Inr photo)) (initial_app\<lparr>route := CameraTab, hasCameraPermission := Some True\<rparr>) \<and>
   list_ex is_capture
     (events (takePicture (Inr photo) (initial_app\<lparr>route := CameraTab, hasCameraPermission := Some True\<rparr>))) \<and>
   hasCameraPermission (initial_app\<lparr>route := CameraTab, hasCameraPermission := Some True\<rparr>) = Some True \<and>
   filter (\<lambda>e. is_image_taken e \<or> is_upload e \<or> is_capture e \<or> is_permission_granted e)
     (fst (run meal_session ([], initial_app))) =
   [SetHasCameraPermission True, TakePictureAsync, SetCapturedImage (Some photo),
    UploadThumbnail ''file:///meal.jpg''] \<and>
   preceded_by is_permission_granted is_capture (fst (run meal_session ([], initial_app)))"
proof -
  have n: "hasCameraPermission initial_app = None" by (simp add: initial_app_def)
  have f: "hasCameraPermission (initial_app\<lparr>hasCameraPermission := Some False\<rparr>) = Some False"
    by simp
  have t: "events (takePicture (Inr photo) (initial_app\<lparr>hasCameraPermission := Some False\<rparr>)) = []"
    by (simp add: takePicture_def bindP_get_state ret_def cameraRef_current_def CameraScreen_def)
  let ?cam = "initial_app\<lparr>route := CameraTab, hasCameraPermission := Some True\<rparr>"
  have v: "CameraScreen ?cam = Camera True"
    by (simp add: CameraScreen_def isFocused_def initial_app_def)
  then have e: "enabled (PressCapture (Inr photo)) ?cam" by simp
  have c: "list_ex is_capture (events (takePicture (Inr photo) ?cam))"
    by (simp add: takePicture_def bindP_get_state cameraRef_current_def v proj setters)
  from capture_needs_permission [of initial_app "Inr photo" meal_session]
    capture_needs_permission [of "initial_app\<lparr>hasCameraPermission := Some False\<rparr>" "Inr photo" meal_session]
    capture_needs_permission [of ?cam "Inr photo" meal_session]
    n f t v e c meal_session_steps
  show ?thesis by simp
qed

subsection \<open>C3: the order of the pipeline\<close>

text \<open>
  C3, as stated, fails: when the user lookup on the db handle finds nobody, the table
  insert is attempted although no remote procedure call was made, so the insert is not
  preceded by a procedure call.
\<close>

theorem pipeline_order_counterexample:
  "pipeline (events (handleSaveMeal (fair_env\<lparr>getUser_reply := Inr None\<rparr>) ready_app)) =
     [Upload, UserLookup, TableInsert] \<and>
   \<not> preceded_by is_rpc is_insert
       (events (handleSaveMeal (fair_env\<lparr>getUser_reply := Inr None\<rparr>) ready_app))"
proof -
  have "pipeline (events (handleSaveMeal (fair_env\<lparr>getUser_reply := Inr None\<rparr>) ready_app)) =
     [Upload, UserLookup, TableInsert]"
    by (simp add: save_pipeline [OF ready_inputs] rpc_branch_fails_def)
  moreover have "\<not> preceded_by is_rpc is_insert
       (events (handleSaveMeal (fair_env\<lparr>getUser_reply := Inr None\<rparr>) ready_app))"
    unfolding handleSaveMeal_run [OF ready_inputs]
    by (simp add: run_tables concrete)
  ultimately show ?thesis by simp
qed

text \<open>
  C3, amended. The steps run in this order: an image is captured or picked, then the
  thumbnail is uploaded, then the user is looked up on the db handle and, when one is
  found, the remote procedure insert is called; the direct table insert is attempted only
  if that branch fails, which includes a lookup that is rejected or finds nobody, in which
  case the procedure is never called, and it is attempted last. A save stopped by the
  guard runs none of the steps, \<open>handleAnalyzeImage\<close> does nothing without a captured
  image, and in every run of the application from its start every upload comes after a
  call of \<open>setCapturedImage\<close> with an image.
\<close>

theorem pipeline_order:
  "(save_inputs s = None \<longrightarrow> pipeline (events (handleSaveMeal env s)) = []) \<and>
   (save_inputs s \<noteq> None \<longrightarrow>
      pipeline (events (handleSaveMeal env s)) =
        [Upload, UserLookup]
        @ (case getUser_reply env of Inr (Some _) \<Rightarrow> [Procedure] | _ \<Rightarrow> [])
        @ (if rpc_branch_fails env then [TableInsert] else [])) \<and>
   pipeline (events (handleSaveMeal env s)) \<in>
     set [[], [Upload, UserLookup, Procedure], [Upload, UserLookup, Procedure, TableInsert],
          [Upload, UserLookup, TableInsert]] \<and>
   (capturedImage s = None \<longrightarrow> handleAnalyzeImage reply s = ([], s, Normal ())) \<and>
   preceded_by is_image_taken is_upload (fst (run as ([], initial_app)))"
proof -
  have none: "save_inputs s = None \<Longrightarrow> pipeline (events (handleSaveMeal env s)) = []"
    by (simp add: handleSaveMeal_guarded pipeline_simps)
  have some: "save_inputs s \<noteq> None \<Longrightarrow>
      pipeline (events (handleSaveMeal env s)) =
        [Upload, UserLookup]
        @ (case getUser_reply env of Inr (Some _) \<Rightarrow> [Procedure] | _ \<Rightarrow> [])
        @ (if rpc_branch_fails env then [TableInsert] else [])"
    by (auto simp: save_pipeline)
  have shape: "pipeline (events (handleSaveMeal env s)) \<in>
     set [[], [Upload, UserLookup, Procedure], [Upload, UserLookup, Procedure, TableInsert],
          [Upload, UserLookup, TableInsert]]"
  proof (cases "save_inputs s")
    case None
    then show ?thesis by (simp add: none)
  next
    case (Some c)
    then show ?thesis
      by (simp add: save_pipeline rpc_branch_fails_def
          split: sum.splits option.splits sdk_reply.splits)
  qed
  have analyze: "capturedImage s = None \<Longrightarrow> handleAnalyzeImage reply s = ([], s, Normal ())"
    by (simp add: handleAnalyzeImage_def bindP_get_state ret_def)
  from none some shape analyze image_before_upload show ?thesis by blast
qed

theorem pipeline_order_witness:
  "save_inputs (ready_app\<lparr>imageUri := Some []\<rparr>) = None \<and>
   pipeline (events (handleSaveMeal fair_env (ready_app\<lparr>imageUri := Some []\<rparr>))) = [] \<and>
   pipeline (events (handleSaveMeal fair_env ready_app)) = [Upload, UserLookup, Procedure] \<and>
   pipeline (events (handleSaveMeal (fair_env\<lparr>rpc_reply := Rejects boom\<rparr>) ready_app)) =
     [Upload, UserLookup, Procedure, TableInsert] \<and>
   capturedImage initial_app = None \<and>
   handleAnalyzeImage (Inr ''file:///meal.jpg'') initial_app = ([], initial_app, Normal ()) \<and>
   filter (\<lambda>e. is_image_taken e \<or> is_upload e \<or> is_capture e \<or> is_permission_granted e)
     (fst (run meal_session ([], initial_app))) =
   [SetHasCameraPermission True, TakePictureAsync, SetCapturedImage (Some photo),
    UploadThumbnail ''file:///meal.jpg''] \<and>
   preceded_by is_image_taken is_upload (fst (run meal_session ([], initial_app)))"
proof -
  have g: "save_inputs (ready_app\<lparr>imageUri := Some []\<rparr>) = None"
    by (simp add: save_inputs_def ready_app_def initial_app_def)
  have r: "save_inputs ready_app \<noteq> None" by (simp add: ready_inputs)
  have c: "capturedImage initial_app = None" by (simp add: initial_app_def)
  have f: "getUser_reply fair_env = Inr (Some alice)" "rpc_reply fair_env = Replies None"
    by (simp_all add: fair_env_def)
  from pipeline_order [of "ready_app\<lparr>imageUri := Some []\<rparr>" fair_env "Inr ''file:///meal.jpg''" meal_session]
    pipeline_order [of ready_app fair_env "Inr ''file:///meal.jpg''" meal_session]
    pipeline_order [of ready_app "fair_env\<lparr>rpc_reply := Rejects boom\<rparr>" "Inr ''file:///meal.jpg''" meal_session]
    pipeline_order [of initial_app fair_env "Inr ''file:///meal.jpg''" meal_session]
    g r c meal_session_steps
  show ?thesis by (simp add: rpc_branch_fails_def f)
qed

subsection \<open>C6: one save in flight\<close>

text \<open>
  C6, as stated, fails: \<open>isSaving\<close> belongs to the mounted results screen, and the back
  button of its header is not disabled while a save is running. A user who presses Save,
  goes back to the camera, retakes the picture, has it analysed and presses Save on the
  results screen mounted for it has two saves in flight, the first not yet settled.
\<close>

theorem one_save_in_flight_counterexample:
  "snd (async_run two_saves (initial_app, [])) =
     [(salad, ''file:///meal.jpg'', alice), (salad, ''file:///second.jpg'', alice)]"
  by (simp add: two_saves_def to_results_def step_def initial_app_def handler_defs prog_defs
        setters screen_defs fair_env_def handleSaveMeal_pressed_def)

text \<open>
  C6, amended. On one mounted results screen at most one save is in flight:
  \<open>handleSaveMeal\<close> calls \<open>setIsSaving(true)\<close> before any network call; while \<open>isSaving\<close>
  is true the Save and Cancel buttons are disabled and a press on either starts nothing;
  a save that passed the guard leaves \<open>isSaving\<close> false, on the success path and on the
  failure path. \<open>handleSaveMeal\<close> is the part that runs in the press followed by the part
  that runs when the awaited calls settle, and whatever is pressed on the screen and
  whenever its saves settle, at most one of them is in flight. Two presses are taken to
  be separated by a render, so that the second sees the \<open>disabled\<close> property the first
  has caused.
\<close>

theorem one_save_in_flight:
  "preceded_by (\<lambda>e. e = SetIsSaving True) is_network (events (handleSaveMeal env s)) \<and>
   (isSaving s \<longrightarrow>
      \<not> can_press_save s \<and> \<not> can_press_cancel s \<and>
      (\<forall>b. buttons (ResultsScreen s) = Some b \<longrightarrow> save_disabled b \<and> cancel_disabled b)) \<and>
   (save_inputs s \<noteq> None \<longrightarrow> isSaving (final (handleSaveMeal env s)) = False) \<and>
   handleSaveMeal env s =
     bindP handleSaveMeal_pressed
       (\<lambda>c. case c of None \<Rightarrow> ret () | Some c \<Rightarrow> handleSaveMeal_settled env c) s \<and>
   length (in_flight (results_steps es \<lparr>screen = s, in_flight = []\<rparr>)) \<le> 1"
proof -
  have b: "isSaving s \<Longrightarrow> buttons (ResultsScreen s) = Some b \<Longrightarrow> save_disabled b \<and> cancel_disabled b"
    for b
    by (auto simp: ResultsScreen_def split: if_splits)
  have f: "length (in_flight (results_steps es \<lparr>screen = s, in_flight = []\<rparr>)) \<le> 1"
    by (rule in_flight_steps) simp
  from b f network_after_isSaving [of env s] saving_disables [of s] save_resets [of s env]
    handleSaveMeal_split [of env s]
  show ?thesis by blast
qed

theorem one_save_in_flight_witness:
  "isSaving (ready_app\<lparr>isSaving := True\<rparr>) \<and>
   \<not> can_press_save (ready_app\<lparr>isSaving := True\<rparr>) \<and>
   \<not> can_press_cancel (ready_app\<lparr>isSaving := True\<rparr>) \<and>
   buttons (ResultsScreen (ready_app\<lparr>isSaving := True\<rparr>)) =
     Some \<lparr>cancel_disabled = True, save_disabled = True, save_label = ''Saving...''\<rparr> \<and>
   can_press_save ready_app \<and>
   save_inputs ready_app = Some (salad, ''file:///meal.jpg'', alice) \<and>
   isSaving (final (handleSaveMeal fair_env ready_app)) = False \<and>
   isSaving (final (handleSaveMeal
      (fair_env\<lparr>rpc_reply := Rejects boom, insert_reply := Rejects boom\<rparr>) ready_app)) = False \<and>
   in_flight (results_steps [SavePressed, SavePressed] \<lparr>screen = ready_app, in_flight = []\<rparr>) =
     [(salad, ''file:///meal.jpg'', alice)] \<and>
   in_flight (results_steps
      [SavePressed, SaveSettles (fair_env\<lparr>rpc_reply := Rejects boom, insert_reply := Rejects boom\<rparr>),
       SavePressed, CancelPressed]
      \<lparr>screen = ready_app, in_flight = []\<rparr>) =
     [(salad, ''file:///meal.jpg'', alice)]"
proof -
  let ?bad = "fair_env\<lparr>rpc_reply := Rejects boom, insert_reply := Rejects boom\<rparr>"
  have s: "isSaving (ready_app\<lparr>isSaving := True\<rparr>)" by simp
  have v: "buttons (ResultsScreen (ready_app\<lparr>isSaving := True\<rparr>)) =
     Some \<lparr>cancel_disabled = True, save_disabled = True, save_label = ''Saving...''\<rparr>"
    by (simp add: ResultsScreen_def ready_app_def initial_app_def)
  have p: "can_press_save ready_app"
    by (simp add: can_press_save_def ResultsScreen_def ready_app_def initial_app_def)
  have i: "save_inputs ready_app \<noteq> None" by (simp add: ready_inputs)
  have one: "in_flight (results_steps [SavePressed, SavePressed] \<lparr>screen = ready_app, in_flight = []\<rparr>) =
     [(salad, ''file:///meal.jpg'', alice)]"
    by (simp add: handleSaveMeal_pressed_run screen_defs concrete)
  have again: "in_flight (results_steps [SavePressed, SaveSettles ?bad, SavePressed, CancelPressed]
      \<lparr>screen = ready_app, in_flight = []\<rparr>) = [(salad, ''file:///meal.jpg'', alice)]"
    by (simp add: handleSaveMeal_pressed_run handleSaveMeal_settled_def
          try_catch_def save_awaited_run run_tables screen_defs concrete handleCancel_def
          router_replace_tabs_def set_state_def)
  from one_save_in_flight [of fair_env ready_app "[SavePressed, SavePressed]"] i
  have a: "isSaving (final (handleSaveMeal fair_env ready_app)) = False" by blast
  from one_save_in_flight [of ?bad ready_app "[SavePressed, SaveSettles ?bad, SavePressed, CancelPressed]"] i
  have b: "isSaving (final (handleSaveMeal ?bad ready_app)) = False" by blast
  from one_save_in_flight [of fair_env "ready_app\<lparr>isSaving := True\<rparr>" "[]"] s
  have d: "\<not> can_press_save (ready_app\<lparr>isSaving := True\<rparr>) \<and>
      \<not> can_press_cancel (ready_app\<lparr>isSaving := True\<rparr>)" by blast
  from s d v p a b one again ready_inputs show ?thesis by simp
qed

end
